theory Spec2Isabelle
  imports Main "HOL-Library.Sublist"
begin

section \<open>The dashboard server of memscope-rs (start\_web\_dashboard.py)\<close>

text \<open>
  A shallow embedding of the development server: the request handler
  \<^verbatim>\<open>DashboardHandler\<close> (routing, headers, logging), the landing page written by
  \<^verbatim>\<open>create_dashboard_index\<close>, the port probe \<^verbatim>\<open>find_available_port\<close> and the
  start-up sequence \<^verbatim>\<open>start_server\<close>.

  Python strings are modelled as \<^typ>\<open>string\<close>, the list of the bytes of their UTF-8
  encoding (the encoding the page is written with). The substring, prefix and suffix tests of
  the source only ever look for ASCII text, for which a test on the bytes and a test on the
  code points agree. Python's \<^verbatim>\<open>needle in s\<close> is \<^const>\<open>sublist\<close>,
  \<^verbatim>\<open>s.startswith(p)\<close> is \<^const>\<open>prefix\<close> and \<^verbatim>\<open>s.endswith(p)\<close> is \<^const>\<open>suffix\<close>.
\<close>

subsection \<open>Exceptions\<close>

text \<open>
  The exceptions that the modelled code raises, catches or lets pass. \<^verbatim>\<open>SystemExit\<close> carries
  the exit code of \<^verbatim>\<open>sys.exit\<close>.
\<close>

datatype py_error =
    OSError
  | FileNotFoundError
  | NotADirectoryError
  | IsADirectoryError
  | PermissionError
  | OverflowError
  | RuntimeError string
  | KeyboardInterrupt
  | SystemExit int

text \<open>What \<^verbatim>\<open>except OSError\<close> catches: the class and its subclasses.\<close>

fun is_OSError :: "py_error \<Rightarrow> bool" where
  "is_OSError OSError = True"
| "is_OSError FileNotFoundError = True"
| "is_OSError NotADirectoryError = True"
| "is_OSError IsADirectoryError = True"
| "is_OSError PermissionError = True"
| "is_OSError _ = False"

text \<open>
  What \<^verbatim>\<open>except Exception\<close> catches: everything but the exceptions that derive from
  \<^verbatim>\<open>BaseException\<close> directly.
\<close>

fun is_Exception :: "py_error \<Rightarrow> bool" where
  "is_Exception KeyboardInterrupt = False"
| "is_Exception (SystemExit _) = False"
| "is_Exception _ = True"

subsection \<open>The file system\<close>

text \<open>
  The part of the file system the server looks at: regular files with their content, and
  directories with the size that \<^verbatim>\<open>stat\<close> reports for them, both named by the relative path
  the source uses; and, for a path that the operating system does not let the process create or
  truncate (no permission, a read-only file system, no space left), the error that
  \<^verbatim>\<open>open\<close> raises for it.
\<close>

record filesystem =
  files :: "string \<rightharpoonup> string"
  dirs :: "string \<rightharpoonup> nat"
  write_refused :: "string \<rightharpoonup> py_error"

text \<open>\<^verbatim>\<open>os.path.exists\<close>: true of a regular file and of a directory.\<close>

definition path_exists :: "filesystem \<Rightarrow> string \<Rightarrow> bool" where
  "path_exists fs p = (p \<in> dom (files fs) \<or> p \<in> dom (dirs fs))"

subsection \<open>Routing: DashboardHandler.do\_GET\<close>

text \<open>
  \<^verbatim>\<open>do_GET\<close> rewrites \<^verbatim>\<open>self.path\<close> and hands over to the static file handler of the
  standard library, which serves the file of that name under the directory
  \<^verbatim>\<open>web_dashboard\<close>. The model returns the rewritten path together with the list of the
  paths whose existence was asked of the file system on the way.
\<close>

definition do_GET_route :: "filesystem \<Rightarrow> string \<Rightarrow> string \<times> string list" where
  "do_GET_route fs path =
    (if path = ''/'' then (''/dashboard_index.html'', [])
     else if path = ''/unsafe'' \<or> path = ''/unsafe/'' then (''/unsafe_ffi_dashboard_v2.html'', [])
     else if path = ''/memory'' \<or> path = ''/memory/'' then (''/memory_analysis_dashboard.html'', [])
     else if path = ''/classic'' \<or> path = ''/classic/'' then (''/index.html'', [])
     else if path = ''/lifecycle'' \<or> path = ''/lifecycle/'' then
       (if \<not> path_exists fs ''web_dashboard/lifecycle_dashboard.html''
        then (''/memory_analysis_dashboard.html'', [''web_dashboard/lifecycle_dashboard.html''])
        else (''/lifecycle_dashboard.html'', [''web_dashboard/lifecycle_dashboard.html'']))
     else (path, []))"

text \<open>
  The alias table as the specification words it: the request paths with a fixed target file,
  and the two request paths of the conditional alias.
\<close>

definition alias_table :: "(string \<times> string) list" where
  "alias_table =
    [(''/'', ''dashboard_index.html''),
     (''/unsafe'', ''unsafe_ffi_dashboard_v2.html''),
     (''/unsafe/'', ''unsafe_ffi_dashboard_v2.html''),
     (''/memory'', ''memory_analysis_dashboard.html''),
     (''/memory/'', ''memory_analysis_dashboard.html''),
     (''/classic'', ''index.html''),
     (''/classic/'', ''index.html'')]"

definition lifecycle_aliases :: "string list" where
  "lifecycle_aliases = [''/lifecycle'', ''/lifecycle/'']"

subsection \<open>Headers: DashboardHandler.end\_headers\<close>

text \<open>
  \<^verbatim>\<open>send_header\<close>, which the handler inherits from the standard library, appends a header
  to the buffer of the response, unless the request line named no version: such a request has
  the version \<^verbatim>\<open>HTTP/0.9\<close> and is answered without headers.
\<close>

definition send_header :: "string \<Rightarrow> (string \<times> string) list \<Rightarrow> string \<times> string \<Rightarrow> (string \<times> string) list" where
  "send_header request_version buffer header =
    (if request_version \<noteq> ''HTTP/0.9'' then buffer @ [header] else buffer)"

text \<open>
  \<^verbatim>\<open>end_headers\<close> buffers its headers and calls \<^verbatim>\<open>end_headers\<close> of the base class, which
  sends the buffer, again unless the version is \<^verbatim>\<open>HTTP/0.9\<close>. The model takes the version
  of the request, \<^verbatim>\<open>self.path\<close> and the headers buffered so far, and returns the headers that
  are sent.
\<close>

definition asset_extensions :: "string list" where
  "asset_extensions = [''.css'', ''.js'', ''.svg'', ''.png'', ''.jpg'']"

definition endswith_any :: "string \<Rightarrow> string list \<Rightarrow> bool" where
  "endswith_any s exts = list_ex (\<lambda>ext. suffix ext s) exts"

definition end_headers :: "string \<Rightarrow> string \<Rightarrow> (string \<times> string) list \<Rightarrow> (string \<times> string) list" where
  "end_headers request_version path buffer =
    (let b1 = send_header request_version buffer (''Access-Control-Allow-Origin'', ''*'');
         b2 = send_header request_version b1 (''Access-Control-Allow-Methods'', ''GET, POST, OPTIONS'');
         b3 = send_header request_version b2 (''Access-Control-Allow-Headers'', ''Content-Type'');
         b4 = (if endswith_any path asset_extensions
               then send_header request_version b3 (''Cache-Control'', ''public, max-age=3600'')
               else b3)
     in if request_version \<noteq> ''HTTP/0.9'' then b4 else [])"


subsection \<open>Logging: DashboardHandler.log\_message\<close>

text \<open>
  The three marks that \<^verbatim>\<open>log_message\<close> prints, as the bytes of their UTF-8 encoding: the
  white check mark U+2705, the cross mark U+274C and the satellite antenna U+1F4E1.
\<close>

definition check_mark :: string where
  "check_mark = [CHR 0xE2, CHR 0x9C, CHR 0x85]"

definition cross_mark :: string where
  "cross_mark = [CHR 0xE2, CHR 0x9D, CHR 0x8C]"

definition antenna_mark :: string where
  "antenna_mark = [CHR 0xF0, CHR 0x9F, CHR 0x93, CHR 0xA1]"

text \<open>
  \<^verbatim>\<open>log_message\<close> formats its arguments into \<^verbatim>\<open>message\<close> with Python's \<^verbatim>\<open>%\<close> operator
  and prints one line. The model starts from the formatted message and from the time stamp
  that \<^verbatim>\<open>time.strftime\<close> returned, and gives the line that is printed.
\<close>

definition log_message :: "string \<Rightarrow> string \<Rightarrow> string" where
  "log_message timestamp message =
    (if sublist ''200'' message then ''['' @ timestamp @ ''] '' @ check_mark @ '' '' @ message
     else if sublist ''404'' message then ''['' @ timestamp @ ''] '' @ cross_mark @ '' '' @ message
     else ''['' @ timestamp @ ''] '' @ antenna_mark @ '' '' @ message)"

text \<open>
  The classification of the specification, and the mark that stands for each class on the
  console.
\<close>

datatype classification = Success | NotFound | Other

fun mark_of :: "classification \<Rightarrow> string" where
  "mark_of Success = check_mark"
| "mark_of NotFound = cross_mark"
| "mark_of Other = antenna_mark"

text \<open>The class of a request is read off the line that \<^verbatim>\<open>log_message\<close> prints for it.\<close>

definition classify :: "string \<Rightarrow> classification" where
  "classify message =
    (let line = log_message [] message in
     if prefix (''[] '' @ check_mark) line then Success
     else if prefix (''[] '' @ cross_mark) line then NotFound
     else Other)"

text \<open>
  The message of a request comes from \<^verbatim>\<open>log_request\<close>, which the handler inherits from
  \<^verbatim>\<open>http.server.BaseHTTPRequestHandler\<close> of the standard library: the request line in double
  quotes, the status code in decimal and the size field, separated by single spaces.
\<close>

definition digit_char :: "nat \<Rightarrow> char" where
  "digit_char d = ''0123456789'' ! (d mod 10)"

fun str_nat :: "nat \<Rightarrow> string" where
  "str_nat n = (if n < 10 then [digit_char n] else str_nat (n div 10) @ [digit_char (n mod 10)])"

definition log_request_message :: "string \<Rightarrow> nat \<Rightarrow> string \<Rightarrow> string" where
  "log_request_message requestline code size_field =
    [CHR 0x22] @ requestline @ [CHR 0x22] @ '' '' @ str_nat code @ '' '' @ size_field"

text \<open>
  The message of an error response comes from \<^verbatim>\<open>send_error\<close> of the same class, which
  calls \<^verbatim>\<open>log_error("code %d, message %s", code, message)\<close> before it sends the response.
\<close>

definition log_error_message :: "nat \<Rightarrow> string \<Rightarrow> string" where
  "log_error_message code message = ''code '' @ str_nat code @ '', message '' @ message"

subsection \<open>The port probe: find\_available\_port\<close>

text \<open>
  The outcome of one probe: the socket is created, bound and closed again by the
  \<^verbatim>\<open>with\<close> block, or an exception is raised on the way.
\<close>

datatype bind_result = Bound | Raises py_error

text \<open>
  \<^verbatim>\<open>s.bind(('localhost', port))\<close> of the standard library, which is not part of the
  repository: it raises \<^verbatim>\<open>OverflowError\<close> for a port outside 0..65535 before it asks the
  operating system, and \<^verbatim>\<open>OSError\<close> when the operating system refuses the port.
\<close>

definition socket_bind :: "(int \<Rightarrow> bool) \<Rightarrow> int \<Rightarrow> bind_result" where
  "socket_bind refused port =
    (if port < 0 \<or> 65535 < port then Raises OverflowError
     else if refused port then Raises OSError
     else Bound)"

text \<open>\<^verbatim>\<open>range(a, b)\<close> over Python's unbounded integers.\<close>

definition py_range :: "int \<Rightarrow> int \<Rightarrow> int list" where
  "py_range a b = [a..b - 1]"

text \<open>
  The loop of \<^verbatim>\<open>find_available_port\<close> over the ports that are left. The result is the value
  returned or the exception raised, together with the ports on which a bind was attempted, in
  the order of the attempts.
\<close>

fun probe_ports :: "(int \<Rightarrow> bind_result) \<Rightarrow> int list \<Rightarrow> (py_error + int) \<times> int list" where
  "probe_ports bind [] = (Inl (RuntimeError ''No available ports found''), [])"
| "probe_ports bind (port # ports) =
    (case bind port of
       Bound \<Rightarrow> (Inr port, [port])
     | Raises e \<Rightarrow>
         if is_OSError e
         then (case probe_ports bind ports of (r, tried) \<Rightarrow> (r, port # tried))
         else (Inl e, [port]))"

definition find_available_port :: "(int \<Rightarrow> bind_result) \<Rightarrow> int \<Rightarrow> (py_error + int) \<times> int list" where
  "find_available_port bind start_port = probe_ports bind (py_range start_port (start_port + 100))"

subsection \<open>The landing page: create\_dashboard\_index\<close>

text \<open>
  \<^verbatim>\<open>index_content\<close> is one string literal of 312 lines. It is given here line by line, in
  ten parts; a character outside ASCII is written as the bytes of its UTF-8 encoding.
\<close>

text \<open>The head of the document, up to the opening tag of the style sheet (lines 80 to 87 of the source file).\<close>

definition index_head_lines :: \<open>string list\<close> where
  \<open>index_head_lines = [
    ''<!DOCTYPE html>'',
    ''<html lang="en">'',
    ''<head>'',
    ''    <meta charset="UTF-8">'',
    ''    <meta name="viewport" content="width=device-width, initial-scale=1.0">'',
    ''    <title>'' @ [CHR 0xF0, CHR 0x9F, CHR 0xA6, CHR 0x80] @ '' Memory Analysis Dashboard - Home</title>'',
    ''    <link rel="stylesheet" href="styles.css">'',
    ''    <style>''
  ]\<close>

text \<open>The style sheet, first part (lines 88 to 170 of the source file).\<close>

definition index_style_lines_a :: \<open>string list\<close> where
  \<open>index_style_lines_a = [
    ''        body {'',
    ''            font-family: -apple-system, BlinkMacSystemFont, 'Segoe UI', Roboto, sans-serif;'',
    ''            margin: 0;'',
    ''            padding: 0;'',
    ''            background: linear-gradient(135deg, #667eea 0%, #764ba2 100%);'',
    ''            min-height: 100vh;'',
    ''        }'',
    ''        '',
    ''        .container {'',
    ''            max-width: 1200px;'',
    ''            margin: 0 auto;'',
    ''            padding: 40px 20px;'',
    ''        }'',
    ''        '',
    ''        .header {'',
    ''            text-align: center;'',
    ''            color: white;'',
    ''            margin-bottom: 50px;'',
    ''        }'',
    ''        '',
    ''        .header h1 {'',
    ''            font-size: 3rem;'',
    ''            margin-bottom: 10px;'',
    ''            text-shadow: 0 2px 4px rgba(0,0,0,0.3);'',
    ''        }'',
    ''        '',
    ''        .header p {'',
    ''            font-size: 1.2rem;'',
    ''            opacity: 0.9;'',
    ''        }'',
    ''        '',
    ''        .dashboard-grid {'',
    ''            display: grid;'',
    ''            grid-template-columns: repeat(auto-fit, minmax(350px, 1fr));'',
    ''            gap: 30px;'',
    ''            margin-top: 40px;'',
    ''        }'',
    ''        '',
    ''        .dashboard-card {'',
    ''            background: white;'',
    ''            border-radius: 16px;'',
    ''            padding: 30px;'',
    ''            box-shadow: 0 10px 30px rgba(0,0,0,0.2);'',
    ''            transition: transform 0.3s ease, box-shadow 0.3s ease;'',
    ''            text-decoration: none;'',
    ''            color: inherit;'',
    ''            position: relative;'',
    ''            overflow: hidden;'',
    ''        }'',
    ''        '',
    ''        .dashboard-card:hover {'',
    ''            transform: translateY(-5px);'',
    ''            box-shadow: 0 20px 40px rgba(0,0,0,0.3);'',
    ''        }'',
    ''        '',
    ''        .dashboard-card::before {'',
    ''            content: '' @ [CHR 0x27, CHR 0x27] @ '';'',
    ''            position: absolute;'',
    ''            top: 0;'',
    ''            left: 0;'',
    ''            right: 0;'',
    ''            height: 4px;'',
    ''            background: linear-gradient(90deg, #667eea, #764ba2);'',
    ''        }'',
    ''        '',
    ''        .card-icon {'',
    ''            font-size: 3rem;'',
    ''            margin-bottom: 20px;'',
    ''            display: block;'',
    ''        }'',
    ''        '',
    ''        .card-title {'',
    ''            font-size: 1.5rem;'',
    ''            font-weight: bold;'',
    ''            margin-bottom: 15px;'',
    ''            color: #2c3e50;'',
    ''        }'',
    ''        '',
    ''        .card-description {'',
    ''            color: #666;'',
    ''            line-height: 1.6;'',
    ''            margin-bottom: 20px;'',
    ''        }''
  ]\<close>

text \<open>The style sheet, second part, with its closing tag (lines 171 to 254 of the source file).\<close>

definition index_style_lines_b :: \<open>string list\<close> where
  \<open>index_style_lines_b = [
    ''        '',
    ''        .card-features {'',
    ''            list-style: none;'',
    ''            padding: 0;'',
    ''            margin: 0;'',
    ''        }'',
    ''        '',
    ''        .card-features li {'',
    ''            padding: 5px 0;'',
    ''            color: #7f8c8d;'',
    ''            font-size: 0.9rem;'',
    ''        }'',
    ''        '',
    ''        .card-features li:before {'',
    ''            content: "'' @ [CHR 0xE2, CHR 0x9C, CHR 0x93] @ '' ";'',
    ''            color: #27ae60;'',
    ''            font-weight: bold;'',
    ''        }'',
    ''        '',
    ''        .status-indicator {'',
    ''            display: inline-block;'',
    ''            width: 10px;'',
    ''            height: 10px;'',
    ''            border-radius: 50%;'',
    ''            margin-right: 8px;'',
    ''            animation: pulse 2s infinite;'',
    ''        }'',
    ''        '',
    ''        @keyframes pulse {'',
    ''            0% { opacity: 1; }'',
    ''            50% { opacity: 0.5; }'',
    ''            100% { opacity: 1; }'',
    ''        }'',
    ''        '',
    ''        .status-ready { background: #27ae60; }'',
    ''        .status-beta { background: #f39c12; }'',
    ''        .status-dev { background: #e74c3c; }'',
    ''        '',
    ''        .footer {'',
    ''            text-align: center;'',
    ''            color: white;'',
    ''            margin-top: 60px;'',
    ''            opacity: 0.8;'',
    ''        }'',
    ''        '',
    ''        .data-status {'',
    ''            background: rgba(255,255,255,0.1);'',
    ''            border-radius: 12px;'',
    ''            padding: 25px;'',
    ''            margin-bottom: 30px;'',
    ''            color: white;'',
    ''            backdrop-filter: blur(10px);'',
    ''        }'',
    ''        '',
    ''        .data-status h3 {'',
    ''            margin-top: 0;'',
    ''            display: flex;'',
    ''            align-items: center;'',
    ''            gap: 10px;'',
    ''        }'',
    ''        '',
    ''        .quick-links {'',
    ''            display: flex;'',
    ''            justify-content: center;'',
    ''            gap: 15px;'',
    ''            margin-top: 30px;'',
    ''            flex-wrap: wrap;'',
    ''        }'',
    ''        '',
    ''        .quick-link {'',
    ''            background: rgba(255,255,255,0.2);'',
    ''            color: white;'',
    ''            padding: 10px 20px;'',
    ''            border-radius: 25px;'',
    ''            text-decoration: none;'',
    ''            font-size: 0.9rem;'',
    ''            transition: background 0.3s ease;'',
    ''        }'',
    ''        '',
    ''        .quick-link:hover {'',
    ''            background: rgba(255,255,255,0.3);'',
    ''        }'',
    ''    </style>'',
    ''</head>''
  ]\<close>

text \<open>The header of the page with the four alias quick links, the data status box and the opening tag of the dashboard grid (lines 255 to 274 of the source file).\<close>

definition index_header_lines :: \<open>string list\<close> where
  \<open>index_header_lines = [
    ''<body>'',
    ''    <div class="container">'',
    ''        <div class="header">'',
    ''            <h1>'' @ [CHR 0xF0, CHR 0x9F, CHR 0x94, CHR 0x8D] @ '' Memory Analysis Dashboard</h1>'',
    ''            <p>Comprehensive Rust memory tracking and analysis suite</p>'',
    ''            '',
    ''            <div class="quick-links">'',
    ''                <a href="/unsafe" class="quick-link">'' @ [CHR 0xF0, CHR 0x9F, CHR 0x94, CHR 0x92] @ '' Unsafe/FFI</a>'',
    ''                <a href="/memory" class="quick-link">'' @ [CHR 0xF0, CHR 0x9F, CHR 0x93, CHR 0x8A] @ '' Memory</a>'',
    ''                <a href="/lifecycle" class="quick-link">'' @ [CHR 0xE2, CHR 0x8F, CHR 0xB1, CHR 0xEF, CHR 0xB8, CHR 0x8F] @ '' Lifecycle</a>'',
    ''                <a href="/classic" class="quick-link">'' @ [CHR 0xF0, CHR 0x9F, CHR 0x8E, CHR 0x9B, CHR 0xEF, CHR 0xB8, CHR 0x8F] @ '' Classic</a>'',
    ''            </div>'',
    ''        </div>'',
    ''        '',
    ''        <div class="data-status">'',
    ''            <h3>'' @ [CHR 0xF0, CHR 0x9F, CHR 0x93, CHR 0x8A] @ '' Data Status</h3>'',
    ''            <p id="data-status-text">'' @ [CHR 0xF0, CHR 0x9F, CHR 0x94, CHR 0x84] @ '' Checking for analysis data...</p>'',
    ''        </div>'',
    ''        '',
    ''        <div class="dashboard-grid">''
  ]\<close>

text \<open>The card of the enhanced unsafe/FFI dashboard (lines 275 to 292 of the source file).\<close>

definition card_unsafe_v2_lines :: \<open>string list\<close> where
  \<open>card_unsafe_v2_lines = [
    ''            <a href="unsafe_ffi_dashboard_v2.html" class="dashboard-card">'',
    ''                <span class="card-icon">'' @ [CHR 0xF0, CHR 0x9F, CHR 0x94, CHR 0x92] @ ''</span>'',
    ''                <div class="card-title">'',
    ''                    <span class="status-indicator status-ready"></span>'',
    ''                    Unsafe/FFI Analysis'',
    ''                </div>'',
    ''                <div class="card-description">'',
    ''                    Monitor unsafe operations and foreign function interface calls with real-time risk assessment and memory violation detection.'',
    ''                </div>'',
    ''                <ul class="card-features">'',
    ''                    <li>Unsafe operation tracking</li>'',
    ''                    <li>FFI call monitoring</li>'',
    ''                    <li>Memory violation detection</li>'',
    ''                    <li>Risk scoring system</li>'',
    ''                    <li>SVG export support</li>'',
    ''                </ul>'',
    ''            </a>'',
    ''            ''
  ]\<close>

text \<open>The card of the memory analysis dashboard (lines 293 to 310 of the source file).\<close>

definition card_memory_lines :: \<open>string list\<close> where
  \<open>card_memory_lines = [
    ''            <a href="memory_analysis_dashboard.html" class="dashboard-card">'',
    ''                <span class="card-icon">'' @ [CHR 0xF0, CHR 0x9F, CHR 0x93, CHR 0x8A] @ ''</span>'',
    ''                <div class="card-title">'',
    ''                    <span class="status-indicator status-ready"></span>'',
    ''                    Memory Analysis'',
    ''                </div>'',
    ''                <div class="card-description">'',
    ''                    Comprehensive memory usage analysis with allocation tracking, performance metrics, and efficiency monitoring.'',
    ''                </div>'',
    ''                <ul class="card-features">'',
    ''                    <li>Memory usage timeline</li>'',
    ''                    <li>Allocation size distribution</li>'',
    ''                    <li>Performance metrics</li>'',
    ''                    <li>Memory efficiency tracking</li>'',
    ''                    <li>Interactive charts</li>'',
    ''                </ul>'',
    ''            </a>'',
    ''            ''
  ]\<close>

text \<open>The card of the classic unsafe/FFI dashboard (lines 311 to 328 of the source file).\<close>

definition card_unsafe_classic_lines :: \<open>string list\<close> where
  \<open>card_unsafe_classic_lines = [
    ''            <a href="unsafe_ffi_dashboard.html" class="dashboard-card">'',
    ''                <span class="card-icon">'' @ [CHR 0xF0, CHR 0x9F, CHR 0x9B, CHR 0xA1, CHR 0xEF, CHR 0xB8, CHR 0x8F] @ ''</span>'',
    ''                <div class="card-title">'',
    ''                    <span class="status-indicator status-ready"></span>'',
    ''                    Unsafe/FFI (Classic)'',
    ''                </div>'',
    ''                <div class="card-description">'',
    ''                    Original unsafe operations dashboard with detailed memory safety analysis and visualization.'',
    ''                </div>'',
    ''                <ul class="card-features">'',
    ''                    <li>Classic interface design</li>'',
    ''                    <li>Detailed safety metrics</li>'',
    ''                    <li>Memory violation tracking</li>'',
    ''                    <li>Risk assessment</li>'',
    ''                    <li>Legacy compatibility</li>'',
    ''                </ul>'',
    ''            </a>'',
    ''            ''
  ]\<close>

text \<open>The card of the classic dashboard (lines 329 to 345 of the source file).\<close>

definition card_classic_lines :: \<open>string list\<close> where
  \<open>card_classic_lines = [
    ''            <a href="index.html" class="dashboard-card">'',
    ''                <span class="card-icon">'' @ [CHR 0xF0, CHR 0x9F, CHR 0x8E, CHR 0x9B, CHR 0xEF, CHR 0xB8, CHR 0x8F] @ ''</span>'',
    ''                <div class="card-title">'',
    ''                    <span class="status-indicator status-ready"></span>'',
    ''                    Classic Dashboard'',
    ''                </div>'',
    ''                <div class="card-description">'',
    ''                    Original dashboard interface with basic memory tracking and visualization features for simple analysis.'',
    ''                </div>'',
    ''                <ul class="card-features">'',
    ''                    <li>Basic memory tracking</li>'',
    ''                    <li>Simple visualization</li>'',
    ''                    <li>Legacy compatibility</li>'',
    ''                    <li>Lightweight interface</li>'',
    ''                    <li>Quick overview</li>'',
    ''                </ul>'',
    ''            </a>''
  ]\<close>

text \<open>The end of the dashboard grid and the footer (lines 346 to 354 of the source file).\<close>

definition index_footer_lines :: \<open>string list\<close> where
  \<open>index_footer_lines = [
    ''        </div>'',
    ''        '',
    ''        <div class="footer">'',
    ''            <p>'' @ [CHR 0xF0, CHR 0x9F, CHR 0xA6, CHR 0x80] @ '' Rust Memory Analysis Dashboard | Built with '' @ [CHR 0xE2, CHR 0x9D, CHR 0xA4, CHR 0xEF, CHR 0xB8, CHR 0x8F] @ '' for memory safety</p>'',
    ''            <p>Server running on <span id="server-info"></span></p>'',
    ''            <p><small>Use Ctrl+C to stop the server</small></p>'',
    ''        </div>'',
    ''    </div>'',
    ''    ''
  ]\<close>

text \<open>The script that the browser runs to fetch data.json, and the end of the document (lines 355 to 391 of the source file).\<close>

definition index_script_lines :: \<open>string list\<close> where
  \<open>index_script_lines = [
    ''    <script>'',
    ''        // Check data availability'',
    ''        async function checkDataStatus() {'',
    ''            try {'',
    ''                const response = await fetch('data.json');'',
    ''                if (response.ok) {'',
    ''                    const data = await response.json();'',
    ''                    const allocCount = data.memory_stats?.total_allocations || 0;'',
    ''                    const unsafeOps = data.unsafe_stats?.total_operations || 0;'',
    ''                    '',
    ''                    document.getElementById('data-status-text').innerHTML = '',
    ''                        `'' @ [CHR 0xE2, CHR 0x9C, CHR 0x85] @ '' Analysis data loaded successfully<br>` +'',
    ''                        `'' @ [CHR 0xF0, CHR 0x9F, CHR 0x93, CHR 0x88] @ '' ${allocCount.toLocaleString()} allocations tracked<br>` +'',
    ''                        `'' @ [CHR 0xF0, CHR 0x9F, CHR 0x94, CHR 0x92] @ '' ${unsafeOps.toLocaleString()} unsafe operations monitored<br>` +'',
    ''                        `'' @ [CHR 0xF0, CHR 0x9F, CHR 0x95, CHR 0x92] @ '' Last updated: ${new Date().toLocaleString()}`;'',
    ''                } else {'',
    ''                    throw new Error('Data not found');'',
    ''                }'',
    ''            } catch (error) {'',
    ''                document.getElementById('data-status-text').innerHTML = '',
    ''                    `'' @ [CHR 0xE2, CHR 0x9A, CHR 0xA0, CHR 0xEF, CHR 0xB8, CHR 0x8F] @ '' No analysis data found. Run a Rust example to generate data:<br>` +'',
    ''                    `<code style="background: rgba(255,255,255,0.2); padding: 4px 8px; border-radius: 4px;">cargo run --example unsafe_ffi_demo</code><br>` +'',
    ''                    `<code style="background: rgba(255,255,255,0.2); padding: 4px 8px; border-radius: 4px;">cargo run --example memory_stress_test</code>`;'',
    ''            }'',
    ''        }'',
    ''        '',
    ''        // Update server info'',
    ''        document.getElementById('server-info').textContent = window.location.host;'',
    ''        '',
    ''        // Check data status on load'',
    ''        checkDataStatus();'',
    ''        '',
    ''        // Refresh data status every 30 seconds'',
    ''        setInterval(checkDataStatus, 30000);'',
    ''    </script>'',
    ''</body>'',
    ''</html>''
  ]\<close>

text \<open>The lines of a text, joined by line feeds: the last line has none.\<close>

fun join_lines :: \<open>string list \<Rightarrow> string\<close> where
  \<open>join_lines [] = []\<close>
| \<open>join_lines [l] = l\<close>
| \<open>join_lines (l # m # ls) = l @ CHR 0x0A # join_lines (m # ls)\<close>

definition index_content :: \<open>string\<close> where
  \<open>index_content = join_lines
     (index_head_lines @ index_style_lines_a @ index_style_lines_b @ index_header_lines @
      card_unsafe_v2_lines @ card_memory_lines @ card_unsafe_classic_lines @ card_classic_lines @
      index_footer_lines @ index_script_lines)\<close>

text \<open>
  The directory part of a path, as \<^verbatim>\<open>os.path.dirname\<close> gives it for the paths of the source:
  what stands before the last slash, and nothing for a path without a slash.
\<close>

definition dirname :: \<open>string \<Rightarrow> string\<close> where
  \<open>dirname p = rev (drop 1 (dropWhile (\<lambda>c. c \<noteq> CHR ''/'') (rev p)))\<close>

text \<open>
  \<^verbatim>\<open>with open(path, "w", encoding="utf-8") as f: f.write(content)\<close>. The file is created
  or truncated and holds the content afterwards. Opening fails when the path names a
  directory, when its directory part is a regular file or does not exist, and when the
  operating system refuses to create or truncate the file; a path without a directory part lies
  in the working directory, which exists.
\<close>

definition open_write :: \<open>filesystem \<Rightarrow> string \<Rightarrow> string \<Rightarrow> py_error + filesystem\<close> where
  \<open>open_write fs p content =
    (if p \<in> dom (dirs fs) then Inl IsADirectoryError
     else if dirname p = [] \<or> dirname p \<in> dom (dirs fs)
       then (case write_refused fs p of
               Some e \<Rightarrow> Inl e
             | None \<Rightarrow> Inr (fs\<lparr>files := (files fs)(p \<mapsto> content)\<rparr>))
     else if dirname p \<in> dom (files fs) then Inl NotADirectoryError
     else Inl FileNotFoundError)\<close>

definition create_dashboard_index :: \<open>filesystem \<Rightarrow> py_error + filesystem\<close> where
  \<open>create_dashboard_index fs = open_write fs ''web_dashboard/dashboard_index.html'' index_content\<close>

text \<open>
  What a page advertises. A card of the page is an anchor of the form
  \<^verbatim>\<open><a href="TARGET" class="dashboard-card">\<close>; the dashboard files that a page advertises
  are the targets of its cards, in the order of the page. \<open>strip_prefix p s\<close> is what follows
  \<open>p\<close> in \<open>s\<close> if \<open>s\<close> starts with \<open>p\<close>.
\<close>

fun strip_prefix :: \<open>string \<Rightarrow> string \<Rightarrow> string option\<close> where
  \<open>strip_prefix [] s = Some s\<close>
| \<open>strip_prefix (c # p) [] = None\<close>
| \<open>strip_prefix (c # p) (d # s) = (if c = d then strip_prefix p s else None)\<close>

definition card_at :: \<open>string \<Rightarrow> string option\<close> where
  \<open>card_at s =
    (case strip_prefix ''<a href="'' s of
       None \<Rightarrow> None
     | Some r \<Rightarrow>
        (case strip_prefix ''" class="dashboard-card">'' (dropWhile (\<lambda>c. c \<noteq> CHR 0x22) r) of
           None \<Rightarrow> None
         | Some _ \<Rightarrow> Some (takeWhile (\<lambda>c. c \<noteq> CHR 0x22) r)))\<close>

fun card_targets :: \<open>string \<Rightarrow> string list\<close> where
  \<open>card_targets [] = []\<close>
| \<open>card_targets (c # s) =
    (case card_at (c # s) of
       None \<Rightarrow> card_targets s
     | Some target \<Rightarrow> target # card_targets s)\<close>

text \<open>
  Lines 462 to 465 of \<^verbatim>\<open>start_server\<close>: the landing page is created if no file of its name
  exists. The result is what is printed, and the file system afterwards or the exception that
  the write raised.
\<close>

definition ensure_dashboard_index :: \<open>filesystem \<Rightarrow> string list \<times> (py_error + filesystem)\<close> where
  \<open>ensure_dashboard_index fs =
    (if \<not> path_exists fs ''web_dashboard/dashboard_index.html''
     then ([[CHR 0xF0, CHR 0x9F, CHR 0x93, CHR 0x9D] @ '' Creating enhanced dashboard index...''], create_dashboard_index fs)
     else ([], Inr fs))\<close>

subsection \<open>Start-up diagnostics: check\_data\_files and list\_available\_dashboards\<close>

text \<open>
  \<^verbatim>\<open>stat().st_size\<close> of a path that exists: the length of a regular file, and for a directory
  the size that the file system reports for it.
\<close>

definition st_size :: \<open>filesystem \<Rightarrow> string \<Rightarrow> nat\<close> where
  \<open>st_size fs p =
    (case files fs p of
       Some content \<Rightarrow> length content
     | None \<Rightarrow> (case dirs fs p of Some n \<Rightarrow> n | None \<Rightarrow> 0))\<close>

text \<open>
  The status dictionary of \<^verbatim>\<open>check_data_files\<close>. Its entry \<^verbatim>\<open>last_modified\<close>, a floating
  point time that nothing reads, is left out. The second component is what is printed.
\<close>

record data_status =
  has_data :: bool
  data_size :: nat

definition check_data_files :: \<open>filesystem \<Rightarrow> data_status \<times> string list\<close> where
  \<open>check_data_files fs =
    (if path_exists fs ''web_dashboard/data.json''
     then (\<lparr>has_data = True, data_size = st_size fs ''web_dashboard/data.json''\<rparr>, [])
     else (\<lparr>has_data = False, data_size = 0\<rparr>,
       [[CHR 0xE2, CHR 0x9A, CHR 0xA0, CHR 0xEF, CHR 0xB8, CHR 0x8F] @ ''  Warning: data.json not found in web_dashboard/'',
        ''   Run a Rust example to generate data:'',
        ''   '' @ [CHR 0xF0, CHR 0x9F, CHR 0x94, CHR 0x92] @ '' cargo run --example unsafe_ffi_demo'',
        ''   '' @ [CHR 0xF0, CHR 0x9F, CHR 0x93, CHR 0x8A] @ '' cargo run --example memory_stress_test'',
        ''   '' @ [CHR 0xE2, CHR 0x8F, CHR 0xB1, CHR 0xEF, CHR 0xB8, CHR 0x8F] @ ''  cargo run --example lifecycles_simple'',
        []]))\<close>

definition known_dashboards :: \<open>(string \<times> string) list\<close> where
  \<open>known_dashboards =
    [(''dashboard_index.html'', [CHR 0xF0, CHR 0x9F, CHR 0x8F, CHR 0xA0] @ '' Main Dashboard Index''),
     (''index.html'', [CHR 0xF0, CHR 0x9F, CHR 0x8E, CHR 0x9B, CHR 0xEF, CHR 0xB8, CHR 0x8F] @ '' Classic Dashboard''),
     (''memory_analysis_dashboard.html'', [CHR 0xF0, CHR 0x9F, CHR 0x93, CHR 0x8A] @ '' Memory Analysis Dashboard''),
     (''unsafe_ffi_dashboard.html'', [CHR 0xF0, CHR 0x9F, CHR 0x94, CHR 0x92] @ '' Unsafe/FFI Dashboard (Classic)''),
     (''unsafe_ffi_dashboard_v2.html'', [CHR 0xF0, CHR 0x9F, CHR 0x94, CHR 0x92] @ '' Unsafe/FFI Dashboard (Enhanced)'')]\<close>

definition list_available_dashboards :: \<open>filesystem \<Rightarrow> (string \<times> string \<times> nat) list\<close> where
  \<open>list_available_dashboards fs =
    map (\<lambda>(file_name, description). (file_name, description, st_size fs (''web_dashboard/'' @ file_name)))
      (filter (\<lambda>(file_name, description). path_exists fs (''web_dashboard/'' @ file_name))
         known_dashboards)\<close>

subsection \<open>The server: start\_server\<close>

text \<open>
  \<^verbatim>\<open>f"{size / 1024:.1f}"\<close>: the size in units of 1024 bytes with one decimal. The quotient is
  exact in floating point for every size below \<open>2 ^ 53\<close>, and the conversion rounds it to the
  nearest tenth, a tie to the even one.
\<close>

definition format_kb :: \<open>nat \<Rightarrow> string\<close> where
  \<open>format_kb size_bytes =
    (let q = (size_bytes * 10) div 1024;
         r = (size_bytes * 10) mod 1024;
         tenths = (if 512 < r \<or> (r = 512 \<and> odd q) then q + 1 else q)
     in str_nat (tenths div 10) @ ''.'' @ str_nat (tenths mod 10))\<close>

text \<open>
  What the server is started in: the file system, the ports that the operating system refuses
  when they are probed and when the server binds for good, the absolute path of the served
  directory, and the text of an exception that the operating system raised.
\<close>

record world =
  world_fs :: filesystem
  probe_refused :: \<open>int \<Rightarrow> bool\<close>
  serve_refused :: \<open>int \<Rightarrow> bool\<close>
  abspath_web_dashboard :: string
  strerror :: \<open>py_error \<Rightarrow> string\<close>

text \<open>\<^verbatim>\<open>str(e)\<close> of an exception.\<close>

definition error_text :: \<open>world \<Rightarrow> py_error \<Rightarrow> string\<close> where
  \<open>error_text w e = (case e of RuntimeError message \<Rightarrow> message | _ \<Rightarrow> strerror w e)\<close>

text \<open>
  The static file handler of the standard library (\<^verbatim>\<open>SimpleHTTPRequestHandler.do_GET\<close>),
  which is not part of the repository, is a parameter of the model: for a request line and
  the rewritten path it gives the status, the headers it buffers and the body, and for an
  error response, which it sends with \<^verbatim>\<open>send_error\<close>, the short message of the error.
\<close>

record base_response =
  base_status :: nat
  base_error :: \<open>string option\<close>
  base_headers :: \<open>(string \<times> string) list\<close>
  base_body :: string

type_synonym base_handler = \<open>filesystem \<Rightarrow> string \<Rightarrow> string \<Rightarrow> base_response\<close>

text \<open>
  What one request gives: the response, and the lines printed on the console. The base class
  logs every response once, from \<^verbatim>\<open>send_response\<close>, with the request line, the status and
  the size field \<^verbatim>\<open>-\<close>; an error response is logged by \<^verbatim>\<open>send_error\<close> before that. Each
  message goes through \<^verbatim>\<open>log_message\<close>.
\<close>

record exchange =
  response_status :: nat
  response_headers :: \<open>(string \<times> string) list\<close>
  response_body :: string
  logged :: \<open>string list\<close>

definition handle_GET ::
  \<open>base_handler \<Rightarrow> filesystem \<Rightarrow> string \<Rightarrow> string \<Rightarrow> string \<Rightarrow> string \<Rightarrow> exchange\<close> where
  \<open>handle_GET base fs timestamp requestline request_version path =
    (let path' = fst (do_GET_route fs path);
         b = base fs requestline path'
     in \<lparr>response_status = base_status b,
         response_headers = end_headers request_version path' (base_headers b),
         response_body = base_body b,
         logged =
           (case base_error b of
              None \<Rightarrow> []
            | Some message \<Rightarrow> [log_message timestamp (log_error_message (base_status b) message)]) @
           [log_message timestamp (log_request_message requestline (base_status b) ''-'')]\<rparr>)\<close>

text \<open>
  What reaches the server while it serves: a GET request, with the time stamp of its log
  lines, its request line, its version and its path, or the interrupt of the operator.
\<close>

datatype event = Get string string string string | Interrupt

text \<open>
  \<^verbatim>\<open>httpd.serve_forever()\<close> over the events that arrive. It returns the exchanges that took
  place and the exception that ended the loop; when the events are used up the server is still
  blocked in the loop, and there is no exception.
\<close>

fun serve_forever :: \<open>base_handler \<Rightarrow> filesystem \<Rightarrow> event list \<Rightarrow> exchange list \<times> py_error option\<close> where
  \<open>serve_forever base fs [] = ([], None)\<close>
| \<open>serve_forever base fs (Interrupt # events) = ([], Some KeyboardInterrupt)\<close>
| \<open>serve_forever base fs (Get timestamp requestline request_version path # events) =
    (case serve_forever base fs events of
       (served, stop) \<Rightarrow>
         (handle_GET base fs timestamp requestline request_version path # served, stop))\<close>

text \<open>
  How a call of \<^verbatim>\<open>start_server\<close> stands: it has returned, it has raised an exception to its
  caller, or it is blocked in the serving loop.
\<close>

datatype outcome = Returned | Raised py_error | Blocked

text \<open>
  A run of \<^verbatim>\<open>start_server\<close>: the lines printed by the main thread, the file system it leaves,
  the ports on which the probe attempted a bind, the port of the server socket if one was
  opened and whether it has been closed again, whether the browser thread was started, the
  exchanges with clients, and the outcome. What the browser thread prints by itself is not
  part of the run.
\<close>

record run =
  console :: \<open>string list\<close>
  fs_after :: filesystem
  probed :: \<open>int list\<close>
  server_port :: \<open>int option\<close>
  server_closed :: bool
  browser_thread :: bool
  exchanges :: \<open>exchange list\<close>
  outcome :: outcome

definition no_server_run :: \<open>string list \<Rightarrow> filesystem \<Rightarrow> int list \<Rightarrow> outcome \<Rightarrow> run\<close> where
  \<open>no_server_run printed fs1 tried out =
    \<lparr>console = printed, fs_after = fs1, probed = tried, server_port = None,
     server_closed = False, browser_thread = False, exchanges = [], outcome = out\<rparr>\<close>

text \<open>The lines that \<^verbatim>\<open>start_server\<close> prints once the server socket is open.\<close>

definition banner :: \<open>world \<Rightarrow> data_status \<Rightarrow> (string \<times> string \<times> nat) list \<Rightarrow> string \<Rightarrow> string list\<close> where
  \<open>banner w data dashboards server_url =
    [[CHR 0xF0, CHR 0x9F, CHR 0x9A, CHR 0x80] @ '' Memory Analysis Dashboard Server'',
     replicate 60 CHR ''='',
     [CHR 0xF0, CHR 0x9F, CHR 0x93, CHR 0xA1] @ '' Server running at: '' @ server_url,
     [CHR 0xF0, CHR 0x9F, CHR 0x93, CHR 0x81] @ '' Serving from: '' @ abspath_web_dashboard w,
     [CHR 0xF0, CHR 0x9F, CHR 0x93, CHR 0x8A] @ '' Data available: '' @ (if has_data data then [CHR 0xE2, CHR 0x9C, CHR 0x85] @ '' Yes'' else [CHR 0xE2, CHR 0x9D, CHR 0x8C] @ '' No'')] @
    (if has_data data then [[CHR 0xF0, CHR 0x9F, CHR 0x93, CHR 0xA6] @ '' Data size: '' @ format_kb (data_size data) @ '' KB''] else []) @
    [[],
     ''Available dashboards:'',
     ''  '' @ [CHR 0xF0, CHR 0x9F, CHR 0x8F, CHR 0xA0] @ '' Main Dashboard:     '' @ server_url @ ''/'',
     ''  '' @ [CHR 0xF0, CHR 0x9F, CHR 0x94, CHR 0x92] @ '' Unsafe/FFI (New):   '' @ server_url @ ''/unsafe'',
     ''  '' @ [CHR 0xF0, CHR 0x9F, CHR 0x93, CHR 0x8A] @ '' Memory Analysis:    '' @ server_url @ ''/memory'',
     ''  '' @ [CHR 0xF0, CHR 0x9F, CHR 0x8E, CHR 0x9B, CHR 0xEF, CHR 0xB8, CHR 0x8F] @ ''  Classic Dashboard:  '' @ server_url @ ''/classic'',
     [],
     ''Direct links:''] @
    map (\<lambda>(file_name, description, size_bytes).
           ''  '' @ description @ '': '' @ server_url @ ''/'' @ file_name @ '' ('' @ format_kb size_bytes @ '' KB)'')
      dashboards @
    [[],
     ''Quick commands:'',
     ''  Press Ctrl+C to stop the server'',
     ''  Visit any URL above to access the dashboards'',
     replicate 60 CHR ''='']\<close>

definition goodbye :: \<open>string list\<close> where
  \<open>goodbye =
    [CHR 0x0A # [CHR 0xF0, CHR 0x9F, CHR 0x91, CHR 0x8B] @ '' Server stopped by user'',
     ''   Thanks for using the Memory Analysis Dashboard!'']\<close>

text \<open>What \<^verbatim>\<open>start_server\<close> prints when the directory \<^verbatim>\<open>web_dashboard\<close> is missing.\<close>

definition root_missing_lines :: \<open>string list\<close> where
  \<open>root_missing_lines =
    [[CHR 0xE2, CHR 0x9D, CHR 0x8C] @ '' Error: web_dashboard directory not found!'',
     ''   Make sure you'' @ [CHR 0x27] @ ''re running this script from the project root.'']\<close>

text \<open>
  \<^verbatim>\<open>start_server(port, auto_open)\<close>, with the events that arrive while it serves. An
  exception that no handler of the function catches is raised to the caller.
\<close>

definition start_server :: \<open>base_handler \<Rightarrow> world \<Rightarrow> int \<Rightarrow> bool \<Rightarrow> event list \<Rightarrow> run\<close> where
  \<open>start_server base w port auto_open events =
    (if \<not> path_exists (world_fs w) ''web_dashboard'' then
       no_server_run root_missing_lines (world_fs w) [] (Raised (SystemExit 1))
     else
       (case ensure_dashboard_index (world_fs w) of
          (out0, Inl e) \<Rightarrow> no_server_run out0 (world_fs w) [] (Raised e)
        | (out0, Inr fs1) \<Rightarrow>
           (case check_data_files fs1 of
              (data, out1) \<Rightarrow>
               (let dashboards = list_available_dashboards fs1 in
                case find_available_port (socket_bind (probe_refused w)) port of
                  (Inl e, tried) \<Rightarrow>
                    (case e of
                       RuntimeError message \<Rightarrow>
                         no_server_run (out0 @ out1 @ [[CHR 0xE2, CHR 0x9D, CHR 0x8C] @ '' Error: '' @ message])
                           fs1 tried (Raised (SystemExit 1))
                     | _ \<Rightarrow> no_server_run (out0 @ out1) fs1 tried (Raised e))
                | (Inr found, tried) \<Rightarrow>
                    (case socket_bind (serve_refused w) found of
                       Raises e \<Rightarrow>
                         if is_Exception e
                         then no_server_run (out0 @ out1 @ [[CHR 0xE2, CHR 0x9D, CHR 0x8C] @ '' Server error: '' @ error_text w e])
                                fs1 tried (Raised (SystemExit 1))
                         else no_server_run (out0 @ out1) fs1 tried (Raised e)
                     | Bound \<Rightarrow>
                        (let server_url = ''http://localhost:'' @ str_nat (nat found);
                             printed = out0 @ out1 @ banner w data dashboards server_url
                         in case serve_forever base fs1 events of
                              (served, None) \<Rightarrow>
                                \<lparr>console = printed @ concat (map logged served), fs_after = fs1,
                                 probed = tried, server_port = Some found, server_closed = False,
                                 browser_thread = auto_open, exchanges = served,
                                 outcome = Blocked\<rparr>
                            | (served, Some e) \<Rightarrow>
                                \<lparr>console = printed @ concat (map logged served) @
                                   (if e = KeyboardInterrupt then goodbye
                                    else if is_Exception e
                                    then [[CHR 0xE2, CHR 0x9D, CHR 0x8C] @ '' Server error: '' @ error_text w e]
                                    else []),
                                 fs_after = fs1, probed = tried, server_port = Some found,
                                 server_closed = True, browser_thread = auto_open,
                                 exchanges = served,
                                 outcome = (if e = KeyboardInterrupt then Returned
                                            else if is_Exception e then Raised (SystemExit 1)
                                            else Raised e)\<rparr>))))))\<close>

text \<open>
  The exit code of the process when \<^verbatim>\<open>start_server\<close> is the last call of \<^verbatim>\<open>main\<close>: 0 when
  it returns, the code of \<^verbatim>\<open>sys.exit\<close>, 130 for an interrupt that no handler caught, and 1
  for any other exception, which the interpreter reports with a traceback. A server that is
  still serving has no exit code.
\<close>

fun exit_code :: \<open>outcome \<Rightarrow> int option\<close> where
  \<open>exit_code Returned = Some 0\<close>
| \<open>exit_code (Raised (SystemExit n)) = Some n\<close>
| \<open>exit_code (Raised KeyboardInterrupt) = Some 130\<close>
| \<open>exit_code (Raised _) = Some 1\<close>
| \<open>exit_code Blocked = None\<close>


section \<open>Properties\<close>

declare str_nat.simps [simp del]

subsection \<open>Routing\<close>

text \<open>
  C1. For every request path and every state of the file system, the path that \<^verbatim>\<open>do_GET\<close>
  hands to the static file handler is found by exact match in the alias table: a path of the
  table is rewritten to the root-relative path of its target file; \<^verbatim>\<open>/lifecycle\<close> and
  \<^verbatim>\<open>/lifecycle/\<close> are rewritten to \<^verbatim>\<open>lifecycle_dashboard.html\<close> if that file exists under
  \<^verbatim>\<open>web_dashboard\<close> at the time of the call and to \<^verbatim>\<open>memory_analysis_dashboard.html\<close>
  otherwise; every other path is passed through unchanged. The file system is asked one
  question in the lifecycle case and none in any other case.
\<close>

theorem do_GET_route_alias_table:
  "do_GET_route fs path =
    (case map_of alias_table path of
       Some target \<Rightarrow> (''/'' @ target, [])
     | None \<Rightarrow>
        if path \<in> set lifecycle_aliases
        then (if path_exists fs ''web_dashboard/lifecycle_dashboard.html''
              then ''/lifecycle_dashboard.html'' else ''/memory_analysis_dashboard.html'',
              [''web_dashboard/lifecycle_dashboard.html''])
        else (path, []))"
  by (simp add: do_GET_route_def alias_table_def lifecycle_aliases_def)

theorem do_GET_route_alias_table_witness:
  "do_GET_route \<lparr>files = Map.empty, dirs = [''web_dashboard'' \<mapsto> 4096],
       write_refused = Map.empty\<rparr> ''/'' = (''/dashboard_index.html'', []) \<and>
   do_GET_route \<lparr>files = Map.empty, dirs = [''web_dashboard'' \<mapsto> 4096],
       write_refused = Map.empty\<rparr> ''/unsafe/'' = (''/unsafe_ffi_dashboard_v2.html'', []) \<and>
   do_GET_route \<lparr>files = Map.empty, dirs = [''web_dashboard'' \<mapsto> 4096],
       write_refused = Map.empty\<rparr> ''/memory'' = (''/memory_analysis_dashboard.html'', []) \<and>
   do_GET_route \<lparr>files = Map.empty, dirs = [''web_dashboard'' \<mapsto> 4096],
       write_refused = Map.empty\<rparr> ''/classic'' = (''/index.html'', []) \<and>
   do_GET_route \<lparr>files = Map.empty, dirs = [''web_dashboard'' \<mapsto> 4096],
       write_refused = Map.empty\<rparr> ''/lifecycle'' =
     (''/memory_analysis_dashboard.html'', [''web_dashboard/lifecycle_dashboard.html'']) \<and>
   do_GET_route \<lparr>files = [''web_dashboard/lifecycle_dashboard.html'' \<mapsto> ''<html></html>''],
       dirs = [''web_dashboard'' \<mapsto> 4096],
       write_refused = Map.empty\<rparr> ''/lifecycle/'' =
     (''/lifecycle_dashboard.html'', [''web_dashboard/lifecycle_dashboard.html'']) \<and>
   do_GET_route \<lparr>files = Map.empty, dirs = [''web_dashboard'' \<mapsto> 4096],
       write_refused = Map.empty\<rparr> ''/unsafe/x.js?v=1'' = (''/unsafe/x.js?v=1'', [])"
  by (simp add: do_GET_route_alias_table alias_table_def lifecycle_aliases_def path_exists_def)

subsection \<open>Headers\<close>







subsection \<open>Logging\<close>

lemma classify_eq:
  "classify message = (if sublist ''200'' message then Success
     else if sublist ''404'' message then NotFound else Other)"
  by (simp add: classify_def log_message_def check_mark_def cross_mark_def antenna_mark_def)


lemma sublist_sep:
  assumes "sep \<notin> set xs"
  shows "sublist xs (a @ sep # b) \<longleftrightarrow> sublist xs a \<or> sublist xs b"
proof
  assume "sublist xs (a @ sep # b)"
  then consider "sublist xs a" | "sublist xs (sep # b)"
    | xs1 xs2 where "xs = xs1 @ xs2" "suffix xs1 a" "prefix xs2 (sep # b)"
    by (auto simp: sublist_append)
  then show "sublist xs a \<or> sublist xs b"
  proof cases
    case 1 then show ?thesis by simp
  next
    case 2
    then have "prefix xs (sep # b) \<or> sublist xs b" by (simp add: sublist_Cons_right)
    with assms show ?thesis by (cases xs) auto
  next
    case 3
    with assms show ?thesis by (cases xs2) (auto simp: prefix_Cons)
  qed
next
  assume "sublist xs a \<or> sublist xs b"
  then show "sublist xs (a @ sep # b)"
    by (auto simp: sublist_append sublist_Cons_right)
qed

lemma sublist_request_message:
  assumes "CHR 0x22 \<notin> set xs" "CHR '' '' \<notin> set xs" "xs \<noteq> []"
  shows "sublist xs (log_request_message R c Z) \<longleftrightarrow>
     sublist xs R \<or> sublist xs (str_nat c) \<or> sublist xs Z"
proof -
  have m: "log_request_message R c Z =
      [] @ CHR 0x22 # (R @ CHR 0x22 # ([] @ CHR '' '' # (str_nat c @ CHR '' '' # Z)))"
    by (simp add: log_request_message_def)
  show ?thesis
    unfolding m sublist_sep [OF assms(1)] sublist_sep [OF assms(2)] using assms(3) by auto
qed

lemma str_nat_3:
  assumes c: "100 \<le> c" "c \<le> 999"
  shows "str_nat c = [digit_char (c div 100), digit_char (c div 10 mod 10), digit_char (c mod 10)]"
proof -
  have "str_nat (c div 100) = [digit_char (c div 100)]"
    using c by (subst str_nat.simps) (simp add: div_less_iff_less_mult)
  moreover have "str_nat (c div 10) = str_nat (c div 100) @ [digit_char (c div 10 mod 10)]"
    using c by (subst str_nat.simps) (simp add: div_mult2_eq [symmetric])
  moreover have "str_nat c = str_nat (c div 10) @ [digit_char (c mod 10)]"
    using c by (subst str_nat.simps) simp
  ultimately show ?thesis by simp
qed

lemma digit_cases:
  "d < 10 \<Longrightarrow> d = 0 \<or> d = 1 \<or> d = 2 \<or> d = 3 \<or> d = 4 \<or> d = 5 \<or> d = 6 \<or> d = 7 \<or> d = 8 \<or> d = (9::nat)"
  by arith

lemma digit_char_eq:
  assumes "d < 10"
  shows "(CHR ''0'' = digit_char d) = (d = 0)" "(CHR ''2'' = digit_char d) = (d = 2)"
        "(CHR ''4'' = digit_char d) = (d = 4)"
  using digit_cases [OF assms] by (auto simp: digit_char_def)

lemma sublist_3: "sublist [x, y, z] [a, b, c] \<longleftrightarrow> x = a \<and> y = b \<and> z = c"
  by (simp add: sublist_code)

lemma decimal_3: "(c::nat) = 100 * (c div 100) + 10 * (c div 10 mod 10) + c mod 10"
proof -
  have 1: "c div 100 = c div 10 div 10" by (simp add: div_mult2_eq [symmetric])
  have 2: "c = 10 * (c div 10) + c mod 10" by simp
  have 3: "c div 10 = 10 * (c div 10 div 10) + c div 10 mod 10" by simp
  show ?thesis unfolding 1 using 2 3 by linarith
qed

lemma digits_200: "(c div 100 = 2 \<and> c div 10 mod 10 = 0 \<and> c mod 10 = 0) = (c = (200::nat))"
proof
  assume "c div 100 = 2 \<and> c div 10 mod 10 = 0 \<and> c mod 10 = 0"
  then show "c = 200" using decimal_3 [of c] by simp
next
  assume "c = 200"
  then show "c div 100 = 2 \<and> c div 10 mod 10 = 0 \<and> c mod 10 = 0" by simp
qed

lemma digits_404: "(c div 100 = 4 \<and> c div 10 mod 10 = 0 \<and> c mod 10 = 4) = (c = (404::nat))"
proof
  assume "c div 100 = 4 \<and> c div 10 mod 10 = 0 \<and> c mod 10 = 4"
  then show "c = 404" using decimal_3 [of c] by simp
next
  assume "c = 404"
  then show "c div 100 = 4 \<and> c div 10 mod 10 = 0 \<and> c mod 10 = 4" by simp
qed

lemma status_200: "100 \<le> c \<Longrightarrow> c \<le> 999 \<Longrightarrow> sublist ''200'' (str_nat c) \<longleftrightarrow> c = 200"
  by (simp add: str_nat_3 sublist_3 digit_char_eq div_less_iff_less_mult digits_200)

lemma status_404: "100 \<le> c \<Longrightarrow> c \<le> 999 \<Longrightarrow> sublist ''404'' (str_nat c) \<longleftrightarrow> c = 404"
  by (simp add: str_nat_3 sublist_3 digit_char_eq div_less_iff_less_mult digits_404)






text \<open>
  C10, as amended. The line that \<^verbatim>\<open>log_message\<close> prints, and with it the class, is a
  function of the formatted message alone, decided by substring tests in a fixed order:
  \<^const>\<open>Success\<close> if \<^verbatim>\<open>200\<close> occurs anywhere in the message, otherwise
  \<^const>\<open>NotFound\<close> if \<^verbatim>\<open>404\<close> occurs anywhere in it, otherwise \<^const>\<open>Other\<close>. So a
  response with status 404 whose request line holds \<^verbatim>\<open>200\<close> is classified
  \<^const>\<open>Success\<close>; and a response with a status of the 2xx range other than 200 whose log
  line lacks \<^verbatim>\<open>200\<close> is classified \<^const>\<open>Other\<close> when the request line and the size
  field lack \<^verbatim>\<open>404\<close> as well, and \<^const>\<open>NotFound\<close> when one of them holds it.
\<close>

theorem log_message_substring_order:
  "log_message ts message =
     ''['' @ ts @ ''] '' @
     mark_of (if sublist ''200'' message then Success
              else if sublist ''404'' message then NotFound else Other) @ '' '' @ message \<and>
   classify message =
     (if sublist ''200'' message then Success
      else if sublist ''404'' message then NotFound else Other) \<and>
   classify (log_request_message (before @ ''200'' @ after) 404 size_field) = Success \<and>
   (200 \<le> code \<and> code \<le> 299 \<and> code \<noteq> 200 \<and>
      \<not> sublist ''200'' (log_request_message requestline code size_field) \<longrightarrow>
    classify (log_request_message requestline code size_field) =
      (if sublist ''404'' requestline \<or> sublist ''404'' size_field then NotFound else Other))"
proof -
  have "sublist ''200'' (before @ ''200'' @ after)"
    by (rule sublist_appendI)
  then have a: "sublist ''200'' (log_request_message (before @ ''200'' @ after) 404 size_field)"
    by (simp add: sublist_request_message)
  have b: "sublist ''404'' (log_request_message requestline code size_field) \<longleftrightarrow>
      sublist ''404'' requestline \<or> sublist ''404'' size_field"
    if "200 \<le> code" "code \<le> 299" for code
    using that by (simp add: sublist_request_message status_404)
  show ?thesis using a b [of code] by (simp add: classify_eq log_message_def)
qed

theorem log_message_substring_order_witness:
  "classify (log_request_message ''DELETE /cache HTTP/1.1'' 204 ''-'') = Other"
proof -
  have "\<not> sublist ''200'' (log_request_message ''DELETE /cache HTTP/1.1'' 204 ''-'')"
    by (simp add: sublist_request_message status_200 sublist_code)
  moreover have "\<not> sublist ''404'' ''DELETE /cache HTTP/1.1''" "\<not> sublist ''404'' ''-''"
    by (simp_all add: sublist_code)
  ultimately show ?thesis
    using log_message_substring_order
      [where code = 204 and requestline = "''DELETE /cache HTTP/1.1''" and size_field = "''-''",
        THEN conjunct2, THEN conjunct2, THEN conjunct2]
    by simp
qed

text \<open>
  The last clause of C10 as stated fails: a log line with status 204 that lacks \<^verbatim>\<open>200\<close>
  but holds \<^verbatim>\<open>404\<close> in the request path is classified \<^const>\<open>NotFound\<close>, not
  \<^const>\<open>Other\<close>.
\<close>

theorem status_204_classified_not_found:
  "\<not> sublist ''200'' (log_request_message ''DELETE /item/404 HTTP/1.1'' 204 ''-'') \<and>
   classify (log_request_message ''DELETE /item/404 HTTP/1.1'' 204 ''-'') = NotFound"
proof -
  have 1: "\<not> sublist ''200'' (log_request_message ''DELETE /item/404 HTTP/1.1'' 204 ''-'')"
    by (simp add: sublist_request_message status_200 sublist_code)
  have "sublist ''404'' (log_request_message ''DELETE /item/404 HTTP/1.1'' 204 ''-'')"
    by (simp add: sublist_request_message sublist_code)
  with 1 show ?thesis by (simp add: classify_eq)
qed

subsection \<open>The port probe\<close>

lemma probe_ports_find:
  assumes "\<forall>p\<in>set ports. bind p = Bound \<or> (\<exists>e. bind p = Raises e \<and> is_OSError e)"
  shows "probe_ports bind ports =
    (case find (\<lambda>p. bind p = Bound) ports of
       Some p \<Rightarrow> (Inr p, takeWhile (\<lambda>q. bind q \<noteq> Bound) ports @ [p])
     | None \<Rightarrow> (Inl (RuntimeError ''No available ports found''), ports))"
  using assms
proof (induction ports)
  case Nil
  then show ?case by simp
next
  case (Cons port ports)
  then show ?case by (cases "bind port") (auto split: option.splits)
qed

lemma socket_bind_Bound: "socket_bind refused p = Bound \<longleftrightarrow> 0 \<le> p \<and> p \<le> 65535 \<and> \<not> refused p"
  by (simp add: socket_bind_def)

lemma set_py_range: "set (py_range a b) = {a..<b}"
  by (auto simp: py_range_def)

lemma find_cong_set: "(\<And>x. x \<in> set xs \<Longrightarrow> P x = Q x) \<Longrightarrow> find P xs = find Q xs"
  by (induction xs) auto

lemma find_upto:
  "find P [a..b] = Some p \<Longrightarrow> a \<le> p \<and> p \<le> b \<and> P p \<and> (\<forall>q. a \<le> q \<and> q < p \<longrightarrow> \<not> P q)"
proof (induction a b rule: upto.induct)
  case (1 i j)
  show ?case
  proof (cases "i \<le> j")
    case False
    with 1 show ?thesis by simp
  next
    case le: True
    then have u: "[i..j] = i # [i + 1..j]" by (simp add: upto_rec1)
    show ?thesis
    proof (cases "P i")
      case True
      with 1 u le show ?thesis by auto
    next
      case False
      with 1 u le have "find P [i + 1..j] = Some p" by simp
      with 1 le have ih: "i + 1 \<le> p \<and> p \<le> j \<and> P p \<and> (\<forall>q. i + 1 \<le> q \<and> q < p \<longrightarrow> \<not> P q)"
        by blast
      have "\<not> P q" if "i \<le> q" "q < p" for q
        using that ih False by (cases "q = i") auto
      with ih show ?thesis by auto
    qed
  qed
qed

text \<open>
  C2, as amended. For every start value whose probed ports all are port numbers
  (\<open>0 \<le> start\<close> and \<open>start + 100 \<le> 65536\<close>), \<^verbatim>\<open>find_available_port\<close> tries to bind the
  ports of \<open>[start, start + 100)\<close> in ascending order and returns the first one on which the
  bind succeeds: the ports attempted are the refused ones before it and the port itself, the
  port returned is at least \<open>start\<close>, binding it succeeds and binding any smaller port of the
  range does not. If no port of the range can be bound, every one of them has been attempted and
  the call raises \<^verbatim>\<open>RuntimeError("No available ports found")\<close>, the port-exhausted error.
  Probing changes nothing: the socket is closed when the \<^verbatim>\<open>with\<close> block is left.
\<close>

theorem find_available_port_first_free:
  assumes "0 \<le> start" "start + 100 \<le> 65536"
  shows "find_available_port (socket_bind refused) start =
    (case find (\<lambda>p. \<not> refused p) (py_range start (start + 100)) of
       Some p \<Rightarrow> (Inr p, takeWhile refused (py_range start (start + 100)) @ [p])
     | None \<Rightarrow> (Inl (RuntimeError ''No available ports found''), py_range start (start + 100))) \<and>
    py_range start (start + 100) = [start..start + 99] \<and>
    (\<forall>p tried. find_available_port (socket_bind refused) start = (Inr p, tried) \<longrightarrow>
       start \<le> p \<and> p < start + 100 \<and> socket_bind refused p = Bound \<and>
       (\<forall>q. start \<le> q \<and> q < p \<longrightarrow> socket_bind refused q \<noteq> Bound))"
proof -
  let ?ports = "py_range start (start + 100)"
  have valid: "0 \<le> p \<and> p \<le> 65535" if "p \<in> set ?ports" for p
    using that assms by (auto simp: set_py_range)
  have ok: "\<forall>p\<in>set ?ports. socket_bind refused p = Bound \<or>
      (\<exists>e. socket_bind refused p = Raises e \<and> is_OSError e)"
    using assms by (auto simp: socket_bind_def set_py_range)
  have f: "find (\<lambda>p. socket_bind refused p = Bound) ?ports = find (\<lambda>p. \<not> refused p) ?ports"
    by (rule find_cong_set) (use valid in \<open>auto simp: socket_bind_Bound\<close>)
  have t: "takeWhile (\<lambda>q. socket_bind refused q \<noteq> Bound) ?ports = takeWhile refused ?ports"
    by (rule takeWhile_cong) (use valid in \<open>auto simp: socket_bind_Bound\<close>)
  have eq: "find_available_port (socket_bind refused) start =
    (case find (\<lambda>p. \<not> refused p) ?ports of
       Some p \<Rightarrow> (Inr p, takeWhile refused ?ports @ [p])
     | None \<Rightarrow> (Inl (RuntimeError ''No available ports found''), ?ports))"
    unfolding find_available_port_def probe_ports_find [OF ok] f t ..
  have first: "start \<le> p \<and> p < start + 100 \<and> socket_bind refused p = Bound \<and>
       (\<forall>q. start \<le> q \<and> q < p \<longrightarrow> socket_bind refused q \<noteq> Bound)"
    if r: "find_available_port (socket_bind refused) start = (Inr p, tried)" for p tried
  proof -
    from r eq have "find (\<lambda>p. \<not> refused p) ?ports = Some p"
      by (auto split: option.splits)
    from find_upto [OF this [unfolded py_range_def]] assms show ?thesis
      by (auto simp: socket_bind_Bound)
  qed
  have "start + 100 - 1 = start + 99" by arith
  then have pr: "?ports = [start..start + 99]" unfolding py_range_def by (rule arg_cong)
  show ?thesis using eq first pr by blast
qed

theorem find_available_port_first_free_witness:
  "(0::int) \<le> 8080 \<and> (8080::int) + 100 \<le> 65536 \<and>
   find_available_port (socket_bind (\<lambda>p. p = 8080 \<or> p = 8081)) 8080 = (Inr 8082, [8080, 8081, 8082])"
proof -
  have r: "py_range 8080 (8080 + 100) = 8080 # 8081 # 8082 # [8083..8179]"
    by (simp add: py_range_def upto_rec1)
  show ?thesis
    using find_available_port_first_free [of 8080 "\<lambda>p. p = 8080 \<or> p = 8081", THEN conjunct1]
    unfolding r by simp
qed

text \<open>
  C2 as stated for every start value fails: from the start value 65536 no port of the range
  can be bound, and the call raises \<^verbatim>\<open>OverflowError\<close> at its first attempt, which
  \<^verbatim>\<open>except OSError\<close> does not catch, instead of the port-exhausted error.
\<close>

theorem find_available_port_overflow:
  "find_available_port (socket_bind (\<lambda>p. False)) 65536 = (Inl OverflowError, [65536]) \<and>
   find (\<lambda>p. socket_bind (\<lambda>p. False) p = Bound) (py_range 65536 (65536 + 100)) = None"
proof -
  have r: "py_range 65536 (65536 + 100) = 65536 # [65537..65635]"
    by (simp add: py_range_def upto_rec1)
  have "find (\<lambda>p. socket_bind (\<lambda>p. False) p = Bound) (py_range 65536 (65536 + 100)) = None"
    by (auto simp: find_None_iff set_py_range socket_bind_def)
  moreover have "find_available_port (socket_bind (\<lambda>p. False)) 65536 = (Inl OverflowError, [65536])"
    unfolding find_available_port_def r by (simp add: socket_bind_def)
  ultimately show ?thesis by simp
qed

subsection \<open>The landing page\<close>

text \<open>
  The cards of the page are found part by part: a line that holds no card can be skipped
  whatever follows it.
\<close>

lemma join_lines_Cons: "rest \<noteq> [] \<Longrightarrow> join_lines (l # rest) = l @ CHR 0x0A # join_lines rest"
  by (cases rest) simp_all

lemma card_targets_skip_lines:
  assumes "list_all (\<lambda>l. \<forall>rest. card_targets (l @ CHR 0x0A # rest) = card_targets rest) ls"
    and "rest \<noteq> []"
  shows "card_targets (join_lines (ls @ rest)) = card_targets (join_lines rest)"
  using assms by (induction ls) (simp_all add: join_lines_Cons)

lemma skip_head:
  "list_all (\<lambda>l. \<forall>rest. card_targets (l @ CHR 0x0A # rest) = card_targets rest) index_head_lines"
  unfolding index_head_lines_def by (simp add: card_at_def)

lemma skip_style_a:
  "list_all (\<lambda>l. \<forall>rest. card_targets (l @ CHR 0x0A # rest) = card_targets rest) index_style_lines_a"
  unfolding index_style_lines_a_def by (simp add: card_at_def)

lemma skip_style_b:
  "list_all (\<lambda>l. \<forall>rest. card_targets (l @ CHR 0x0A # rest) = card_targets rest) index_style_lines_b"
  unfolding index_style_lines_b_def by (simp add: card_at_def)

lemma skip_header:
  "list_all (\<lambda>l. \<forall>rest. card_targets (l @ CHR 0x0A # rest) = card_targets rest) index_header_lines"
  unfolding index_header_lines_def by (simp add: card_at_def)

lemma skip_footer:
  "list_all (\<lambda>l. \<forall>rest. card_targets (l @ CHR 0x0A # rest) = card_targets rest) index_footer_lines"
  unfolding index_footer_lines_def by (simp add: card_at_def)

lemma card_unsafe_v2:
  assumes "rest \<noteq> []"
  shows "card_targets (join_lines (card_unsafe_v2_lines @ rest)) = ''unsafe_ffi_dashboard_v2.html'' # card_targets (join_lines rest)"
proof -
  have "list_all (\<lambda>l. \<forall>rest. card_targets (l @ CHR 0x0A # rest) = card_targets rest) (tl card_unsafe_v2_lines)"
    unfolding card_unsafe_v2_lines_def by (simp add: card_at_def)
  from card_targets_skip_lines [OF this assms]
  have t: "card_targets (join_lines (tl card_unsafe_v2_lines @ rest)) = card_targets (join_lines rest)" .
  have h: "card_targets (hd card_unsafe_v2_lines @ CHR 0x0A # r) = ''unsafe_ffi_dashboard_v2.html'' # card_targets r" for r
    unfolding card_unsafe_v2_lines_def by (simp add: card_at_def)
  have c: "card_unsafe_v2_lines = hd card_unsafe_v2_lines # tl card_unsafe_v2_lines"
    unfolding card_unsafe_v2_lines_def by simp
  have "join_lines (card_unsafe_v2_lines @ rest) = hd card_unsafe_v2_lines @ CHR 0x0A # join_lines (tl card_unsafe_v2_lines @ rest)"
    by (subst c) (simp add: join_lines_Cons assms)
  then show ?thesis by (simp only: h t)
qed

lemma card_memory:
  assumes "rest \<noteq> []"
  shows "card_targets (join_lines (card_memory_lines @ rest)) = ''memory_analysis_dashboard.html'' # card_targets (join_lines rest)"
proof -
  have "list_all (\<lambda>l. \<forall>rest. card_targets (l @ CHR 0x0A # rest) = card_targets rest) (tl card_memory_lines)"
    unfolding card_memory_lines_def by (simp add: card_at_def)
  from card_targets_skip_lines [OF this assms]
  have t: "card_targets (join_lines (tl card_memory_lines @ rest)) = card_targets (join_lines rest)" .
  have h: "card_targets (hd card_memory_lines @ CHR 0x0A # r) = ''memory_analysis_dashboard.html'' # card_targets r" for r
    unfolding card_memory_lines_def by (simp add: card_at_def)
  have c: "card_memory_lines = hd card_memory_lines # tl card_memory_lines"
    unfolding card_memory_lines_def by simp
  have "join_lines (card_memory_lines @ rest) = hd card_memory_lines @ CHR 0x0A # join_lines (tl card_memory_lines @ rest)"
    by (subst c) (simp add: join_lines_Cons assms)
  then show ?thesis by (simp only: h t)
qed

lemma card_unsafe_classic:
  assumes "rest \<noteq> []"
  shows "card_targets (join_lines (card_unsafe_classic_lines @ rest)) = ''unsafe_ffi_dashboard.html'' # card_targets (join_lines rest)"
proof -
  have "list_all (\<lambda>l. \<forall>rest. card_targets (l @ CHR 0x0A # rest) = card_targets rest) (tl card_unsafe_classic_lines)"
    unfolding card_unsafe_classic_lines_def by (simp add: card_at_def)
  from card_targets_skip_lines [OF this assms]
  have t: "card_targets (join_lines (tl card_unsafe_classic_lines @ rest)) = card_targets (join_lines rest)" .
  have h: "card_targets (hd card_unsafe_classic_lines @ CHR 0x0A # r) = ''unsafe_ffi_dashboard.html'' # card_targets r" for r
    unfolding card_unsafe_classic_lines_def by (simp add: card_at_def)
  have c: "card_unsafe_classic_lines = hd card_unsafe_classic_lines # tl card_unsafe_classic_lines"
    unfolding card_unsafe_classic_lines_def by simp
  have "join_lines (card_unsafe_classic_lines @ rest) = hd card_unsafe_classic_lines @ CHR 0x0A # join_lines (tl card_unsafe_classic_lines @ rest)"
    by (subst c) (simp add: join_lines_Cons assms)
  then show ?thesis by (simp only: h t)
qed

lemma card_classic:
  assumes "rest \<noteq> []"
  shows "card_targets (join_lines (card_classic_lines @ rest)) = ''index.html'' # card_targets (join_lines rest)"
proof -
  have "list_all (\<lambda>l. \<forall>rest. card_targets (l @ CHR 0x0A # rest) = card_targets rest) (tl card_classic_lines)"
    unfolding card_classic_lines_def by (simp add: card_at_def)
  from card_targets_skip_lines [OF this assms]
  have t: "card_targets (join_lines (tl card_classic_lines @ rest)) = card_targets (join_lines rest)" .
  have h: "card_targets (hd card_classic_lines @ CHR 0x0A # r) = ''index.html'' # card_targets r" for r
    unfolding card_classic_lines_def by (simp add: card_at_def)
  have c: "card_classic_lines = hd card_classic_lines # tl card_classic_lines"
    unfolding card_classic_lines_def by simp
  have "join_lines (card_classic_lines @ rest) = hd card_classic_lines @ CHR 0x0A # join_lines (tl card_classic_lines @ rest)"
    by (subst c) (simp add: join_lines_Cons assms)
  then show ?thesis by (simp only: h t)
qed

lemma card_targets_script: "card_targets (join_lines index_script_lines) = []"
proof -
  have sk: "list_all (\<lambda>l. \<forall>rest. card_targets (l @ CHR 0x0A # rest) = card_targets rest)
      (butlast index_script_lines)"
    unfolding index_script_lines_def by (simp add: card_at_def)
  have l: "card_targets (last index_script_lines) = []"
    unfolding index_script_lines_def by (simp add: card_at_def)
  have c: "index_script_lines = butlast index_script_lines @ [last index_script_lines]"
    unfolding index_script_lines_def by simp
  show ?thesis
    by (subst c) (simp add: card_targets_skip_lines [OF sk] l)
qed

lemma index_script_lines_nonempty: "index_script_lines \<noteq> []"
  unfolding index_script_lines_def by simp

lemma card_targets_index_content:
  "card_targets index_content =
     [''unsafe_ffi_dashboard_v2.html'', ''memory_analysis_dashboard.html'',
      ''unsafe_ffi_dashboard.html'', ''index.html'']"
  unfolding index_content_def
  by (simp add: card_targets_skip_lines [OF skip_head] card_targets_skip_lines [OF skip_style_a]
        card_targets_skip_lines [OF skip_style_b] card_targets_skip_lines [OF skip_header]
        card_targets_skip_lines [OF skip_footer]
        card_unsafe_v2 card_memory card_unsafe_classic card_classic
        card_targets_script index_script_lines_nonempty)

lemma dirname_index: "dirname ''web_dashboard/dashboard_index.html'' = ''web_dashboard''"
  by (simp add: dirname_def)

lemma create_dashboard_index_cases:
  "create_dashboard_index fs =
    (if ''web_dashboard/dashboard_index.html'' \<in> dom (dirs fs) then Inl IsADirectoryError
     else if ''web_dashboard'' \<in> dom (dirs fs)
       then (case write_refused fs ''web_dashboard/dashboard_index.html'' of
               Some e \<Rightarrow> Inl e
             | None \<Rightarrow>
                 Inr (fs\<lparr>files := (files fs)(''web_dashboard/dashboard_index.html'' \<mapsto> index_content)\<rparr>))
     else if ''web_dashboard'' \<in> dom (files fs) then Inl NotADirectoryError
     else Inl FileNotFoundError)"
  by (simp add: create_dashboard_index_def open_write_def dirname_index)

text \<open>
  C9. \<^verbatim>\<open>create_dashboard_index\<close> writes one constant string to
  \<^verbatim>\<open>web_dashboard/dashboard_index.html\<close>: whenever the write succeeds, which it does exactly
  when \<^verbatim>\<open>web_dashboard\<close> is a directory, the path of the page is not, and the operating
  system does not refuse to create or truncate the file, the file holds
  \<^const>\<open>index_content\<close> afterwards, whatever the file system held before, and nothing else
  has changed; so two invocations write identical content. The cards of that content link to
  \<^verbatim>\<open>unsafe_ffi_dashboard_v2.html\<close>, \<^verbatim>\<open>memory_analysis_dashboard.html\<close>,
  \<^verbatim>\<open>unsafe_ffi_dashboard.html\<close> and \<^verbatim>\<open>index.html\<close>, whether or not those files exist.
\<close>

theorem create_dashboard_index_constant:
  "(create_dashboard_index fs = Inr fs' \<longrightarrow>
      files fs' ''web_dashboard/dashboard_index.html'' = Some index_content \<and>
      (\<forall>p. p \<noteq> ''web_dashboard/dashboard_index.html'' \<longrightarrow> files fs' p = files fs p) \<and>
      dirs fs' = dirs fs \<and> write_refused fs' = write_refused fs) \<and>
   ((\<exists>fs'. create_dashboard_index fs = Inr fs') \<longleftrightarrow>
      ''web_dashboard'' \<in> dom (dirs fs) \<and> ''web_dashboard/dashboard_index.html'' \<notin> dom (dirs fs) \<and>
      write_refused fs ''web_dashboard/dashboard_index.html'' = None) \<and>
   card_targets index_content =
     [''unsafe_ffi_dashboard_v2.html'', ''memory_analysis_dashboard.html'',
      ''unsafe_ffi_dashboard.html'', ''index.html'']"
  by (auto simp: create_dashboard_index_cases card_targets_index_content
        split: if_splits option.splits)

theorem create_dashboard_index_constant_witness:
  "create_dashboard_index \<lparr>files = Map.empty, dirs = [''web_dashboard'' \<mapsto> 4096],
      write_refused = Map.empty\<rparr> =
     Inr \<lparr>files = [''web_dashboard/dashboard_index.html'' \<mapsto> index_content],
          dirs = [''web_dashboard'' \<mapsto> 4096],
      write_refused = Map.empty\<rparr> \<and>
   create_dashboard_index
     \<lparr>files = [''web_dashboard/index.html'' \<mapsto> ''<html></html>'',
               ''web_dashboard/dashboard_index.html'' \<mapsto> ''old''],
      dirs = [''web_dashboard'' \<mapsto> 4096],
      write_refused = Map.empty\<rparr> =
     Inr \<lparr>files = [''web_dashboard/index.html'' \<mapsto> ''<html></html>'',
                   ''web_dashboard/dashboard_index.html'' \<mapsto> index_content],
          dirs = [''web_dashboard'' \<mapsto> 4096],
      write_refused = Map.empty\<rparr> \<and>
   ''unsafe_ffi_dashboard_v2.html'' \<in> set (card_targets index_content)"
proof -
  note t = create_dashboard_index_constant
    [of "\<lparr>files = Map.empty, dirs = [''web_dashboard'' \<mapsto> 4096],
      write_refused = Map.empty\<rparr>"]
  have "''unsafe_ffi_dashboard_v2.html'' \<in> set (card_targets index_content)"
    using t by simp
  then show ?thesis by (simp add: create_dashboard_index_cases)
qed

text \<open>
  C4 as stated fails: in a directory \<^verbatim>\<open>web_dashboard\<close> that holds no dashboard at all the
  generator succeeds, and the page it writes has a card for
  \<^verbatim>\<open>unsafe_ffi_dashboard_v2.html\<close>, a file that does not exist.
\<close>

theorem landing_page_advertises_absent_file:
  "create_dashboard_index \<lparr>files = Map.empty, dirs = [''web_dashboard'' \<mapsto> 4096],
      write_refused = Map.empty\<rparr> =
     Inr \<lparr>files = [''web_dashboard/dashboard_index.html'' \<mapsto> index_content],
          dirs = [''web_dashboard'' \<mapsto> 4096],
      write_refused = Map.empty\<rparr> \<and>
   ''unsafe_ffi_dashboard_v2.html'' \<in> set (card_targets index_content) \<and>
   \<not> path_exists \<lparr>files = Map.empty, dirs = [''web_dashboard'' \<mapsto> 4096],
      write_refused = Map.empty\<rparr>
       ''web_dashboard/unsafe_ffi_dashboard_v2.html''"
  by (simp add: create_dashboard_index_cases card_targets_index_content path_exists_def)

text \<open>
  C4, as amended. The page that the generator writes is fixed: whatever the file system holds
  at generation time, a generation that succeeds leaves a page whose cards advertise the four
  files \<^verbatim>\<open>unsafe_ffi_dashboard_v2.html\<close>, \<^verbatim>\<open>memory_analysis_dashboard.html\<close>,
  \<^verbatim>\<open>unsafe_ffi_dashboard.html\<close> and \<^verbatim>\<open>index.html\<close> and no other file. No existence check
  is made: the files advertised on the page all exist at generation time if and only if these
  four files exist at that moment, and an absent one of them is advertised all the same.
\<close>

theorem landing_page_advertises_four_fixed:
  assumes "create_dashboard_index fs = Inr fs'"
  shows "\<exists>page. files fs' ''web_dashboard/dashboard_index.html'' = Some page \<and>
           card_targets page =
             [''unsafe_ffi_dashboard_v2.html'', ''memory_analysis_dashboard.html'',
              ''unsafe_ffi_dashboard.html'', ''index.html''] \<and>
           (list_all (\<lambda>f. path_exists fs (''web_dashboard/'' @ f)) (card_targets page) \<longleftrightarrow>
              path_exists fs ''web_dashboard/unsafe_ffi_dashboard_v2.html'' \<and>
              path_exists fs ''web_dashboard/memory_analysis_dashboard.html'' \<and>
              path_exists fs ''web_dashboard/unsafe_ffi_dashboard.html'' \<and>
              path_exists fs ''web_dashboard/index.html'')"
proof -
  from assms have "files fs' ''web_dashboard/dashboard_index.html'' = Some index_content"
    by (auto simp: create_dashboard_index_cases split: if_splits option.splits)
  then show ?thesis by (simp add: card_targets_index_content)
qed

theorem landing_page_advertises_four_fixed_witness:
  "\<exists>page. files \<lparr>files = [''web_dashboard/dashboard_index.html'' \<mapsto> index_content],
                    dirs = [''web_dashboard'' \<mapsto> 4096], write_refused = Map.empty\<rparr>
             ''web_dashboard/dashboard_index.html'' = Some page \<and>
      card_targets page =
        [''unsafe_ffi_dashboard_v2.html'', ''memory_analysis_dashboard.html'',
         ''unsafe_ffi_dashboard.html'', ''index.html''] \<and>
      \<not> list_all (\<lambda>f. path_exists
          \<lparr>files = Map.empty, dirs = [''web_dashboard'' \<mapsto> 4096],
      write_refused = Map.empty\<rparr> (''web_dashboard/'' @ f))
        (card_targets page)"
proof -
  have c: "create_dashboard_index
      \<lparr>files = Map.empty, dirs = [''web_dashboard'' \<mapsto> 4096],
      write_refused = Map.empty\<rparr> =
    Inr \<lparr>files = [''web_dashboard/dashboard_index.html'' \<mapsto> index_content],
         dirs = [''web_dashboard'' \<mapsto> 4096], write_refused = Map.empty\<rparr>"
    by (simp add: create_dashboard_index_cases)
  have n: "\<not> path_exists
      \<lparr>files = Map.empty, dirs = [''web_dashboard'' \<mapsto> 4096],
      write_refused = Map.empty\<rparr> ''web_dashboard/index.html''"
    by (simp add: path_exists_def)
  from landing_page_advertises_four_fixed [OF c] n show ?thesis by blast
qed

text \<open>
  C5. Ensuring the landing page is idempotent: if \<^verbatim>\<open>dashboard_index.html\<close> exists under
  the root directory, nothing is printed and the file system is left as it is, so an existing
  file is never overwritten; after a call that succeeded the file exists, so a second call
  takes no action. A whole run of \<^verbatim>\<open>start_server\<close> that finds the page leaves the file
  system as it found it.
\<close>

theorem ensure_dashboard_index_idempotent:
  "(path_exists fs ''web_dashboard/dashboard_index.html'' \<longrightarrow>
      ensure_dashboard_index fs = ([], Inr fs)) \<and>
   (ensure_dashboard_index fs = (printed, Inr fs') \<longrightarrow>
      path_exists fs' ''web_dashboard/dashboard_index.html'' \<and>
      ensure_dashboard_index fs' = ([], Inr fs')) \<and>
   (path_exists (world_fs w) ''web_dashboard/dashboard_index.html'' \<longrightarrow>
      fs_after (start_server base w port auto_open events) = world_fs w)"
proof -
  have 1: "path_exists fs ''web_dashboard/dashboard_index.html'' \<longrightarrow>
      ensure_dashboard_index fs = ([], Inr fs)" for fs
    by (simp add: ensure_dashboard_index_def)
  have 2: "path_exists fs' ''web_dashboard/dashboard_index.html''"
    if "ensure_dashboard_index fs = (printed, Inr fs')"
    using that
    by (auto simp: ensure_dashboard_index_def create_dashboard_index_cases path_exists_def
          split: if_splits option.splits)
  have 3: "fs_after (start_server base w port auto_open events) = world_fs w"
    if "path_exists (world_fs w) ''web_dashboard/dashboard_index.html''"
    using that
    by (auto simp: start_server_def ensure_dashboard_index_def no_server_run_def Let_def
          split: prod.splits sum.splits py_error.splits bind_result.splits option.splits)
  show ?thesis using 1 2 3 by blast
qed

theorem ensure_dashboard_index_idempotent_witness:
  "ensure_dashboard_index
     \<lparr>files = [''web_dashboard/dashboard_index.html'' \<mapsto> ''<p>my own page</p>''],
      dirs = [''web_dashboard'' \<mapsto> 4096],
      write_refused = Map.empty\<rparr> =
   ([], Inr \<lparr>files = [''web_dashboard/dashboard_index.html'' \<mapsto> ''<p>my own page</p>''],
      dirs = [''web_dashboard'' \<mapsto> 4096],
      write_refused = Map.empty\<rparr>)"
proof -
  have "path_exists \<lparr>files = [''web_dashboard/dashboard_index.html'' \<mapsto> ''<p>my own page</p>''],
      dirs = [''web_dashboard'' \<mapsto> 4096],
      write_refused = Map.empty\<rparr> ''web_dashboard/dashboard_index.html''"
    by (simp add: path_exists_def)
  with ensure_dashboard_index_idempotent [THEN conjunct1] show ?thesis by blast
qed

subsection \<open>Starting and stopping the server\<close>

lemma serve_forever_requests:
  assumes "Interrupt \<notin> set reqs"
  shows "serve_forever base fs (reqs @ later) =
     (fst (serve_forever base fs reqs) @ fst (serve_forever base fs later),
      snd (serve_forever base fs later)) \<and>
     snd (serve_forever base fs reqs) = None \<and>
     length (fst (serve_forever base fs reqs)) = length reqs"
  using assms
proof (induction reqs)
  case Nil
  then show ?case by simp
next
  case (Cons ev reqs)
  then show ?case by (cases ev) (auto split: prod.splits)
qed

lemma start_server_Blocked:
  assumes "outcome (start_server base w port auto_open []) = Blocked"
  obtains out0 fs1 data out1 found tried where
    "path_exists (world_fs w) ''web_dashboard''"
    "ensure_dashboard_index (world_fs w) = (out0, Inr fs1)"
    "check_data_files fs1 = (data, out1)"
    "find_available_port (socket_bind (probe_refused w)) port = (Inr found, tried)"
    "socket_bind (serve_refused w) found = Bound"
  using assms
  by (auto simp: start_server_def no_server_run_def Let_def
        split: if_splits prod.splits sum.splits py_error.splits bind_result.splits)

text \<open>
  C7. If the directory \<^verbatim>\<open>web_dashboard\<close> does not exist when \<^verbatim>\<open>start_server\<close> is called, the
  run prints the two lines of the error and raises \<^verbatim>\<open>SystemExit(1)\<close>, so the process ends
  with exit code 1. Nothing else has happened by then: no port was probed, no server socket was
  opened, the browser thread was not started, no request was served, and the file system is
  as it was.
\<close>

theorem start_server_missing_root:
  assumes "\<not> path_exists (world_fs w) ''web_dashboard''"
  shows "start_server base w port auto_open events =
      \<lparr>console =
       [[CHR 0xE2, CHR 0x9D, CHR 0x8C] @ '' Error: web_dashboard directory not found!'',
        ''   Make sure you'' @ [CHR 0x27] @ ''re running this script from the project root.''],
       fs_after = world_fs w, probed = [], server_port = None,
       server_closed = False, browser_thread = False, exchanges = [],
       outcome = Raised (SystemExit 1)\<rparr> \<and>
    exit_code (outcome (start_server base w port auto_open events)) = Some 1"
  using assms by (simp add: start_server_def no_server_run_def root_missing_lines_def)

text \<open>
  C8. Take a server that has come up and is blocked in \<^verbatim>\<open>serve_forever\<close>. If it serves some
  requests and then the operator's interrupt arrives, the loop ends, the server socket is
  closed, the shutdown notice is printed after everything printed until then, and
  \<^verbatim>\<open>start_server\<close> returns, so the process ends with exit code 0. The exchanges of the run are
  those of the requests that came before the interrupt, one for each; whatever arrives later
  is not served.
\<close>

theorem interrupt_stops_server:
  assumes "outcome (start_server base w port auto_open []) = Blocked"
    and "Interrupt \<notin> set reqs"
  shows "outcome (start_server base w port auto_open reqs) = Blocked \<and>
    outcome (start_server base w port auto_open (reqs @ Interrupt # later)) = Returned \<and>
    exit_code (outcome (start_server base w port auto_open (reqs @ Interrupt # later))) = Some 0 \<and>
    console (start_server base w port auto_open (reqs @ Interrupt # later)) =
      console (start_server base w port auto_open reqs) @
      [CHR 0x0A # [CHR 0xF0, CHR 0x9F, CHR 0x91, CHR 0x8B] @ '' Server stopped by user'',
       ''   Thanks for using the Memory Analysis Dashboard!''] \<and>
    exchanges (start_server base w port auto_open (reqs @ Interrupt # later)) =
      exchanges (start_server base w port auto_open reqs) \<and>
    length (exchanges (start_server base w port auto_open (reqs @ Interrupt # later))) = length reqs \<and>
    server_closed (start_server base w port auto_open (reqs @ Interrupt # later))"
proof -
  from assms(1) obtain out0 fs1 data out1 found tried where s:
    "path_exists (world_fs w) ''web_dashboard''"
    "ensure_dashboard_index (world_fs w) = (out0, Inr fs1)"
    "check_data_files fs1 = (data, out1)"
    "find_available_port (socket_bind (probe_refused w)) port = (Inr found, tried)"
    "socket_bind (serve_refused w) found = Bound"
    by (rule start_server_Blocked)
  obtain served where r: "serve_forever base fs1 reqs = (served, None)" "length served = length reqs"
    using serve_forever_requests [OF assms(2), of base fs1 "[]"]
    by (cases "serve_forever base fs1 reqs") auto
  have i: "serve_forever base fs1 (reqs @ Interrupt # later) = (served, Some KeyboardInterrupt)"
    using serve_forever_requests [OF assms(2), of base fs1 "Interrupt # later"] r by simp
  show ?thesis
    by (simp add: start_server_def Let_def s r i goodbye_def)
qed


theorem start_server_missing_root_witness:
  "start_server (\<lambda>fs requestline path. \<lparr>base_status = 404, base_error = Some ''File not found'',
        base_headers = [], base_body = []\<rparr>)
     \<lparr>world_fs = \<lparr>files = Map.empty, dirs = Map.empty, write_refused = Map.empty\<rparr>,
         probe_refused = (\<lambda>p. False), serve_refused = (\<lambda>p. False),
         abspath_web_dashboard = ''/srv/memscope/web_dashboard'', strerror = (\<lambda>e. ''error'')\<rparr>
     8080 True [Get ''12:00:00'' ''GET / HTTP/1.1'' ''HTTP/1.1'' ''/'', Interrupt] =
   \<lparr>console =
       [[CHR 0xE2, CHR 0x9D, CHR 0x8C] @ '' Error: web_dashboard directory not found!'',
        ''   Make sure you'' @ [CHR 0x27] @ ''re running this script from the project root.''],
       fs_after = \<lparr>files = Map.empty, dirs = Map.empty, write_refused = Map.empty\<rparr>,
    probed = [], server_port = None, server_closed = False, browser_thread = False,
    exchanges = [], outcome = Raised (SystemExit 1)\<rparr>"
proof -
  have "\<not> path_exists (world_fs
        \<lparr>world_fs = \<lparr>files = Map.empty, dirs = Map.empty, write_refused = Map.empty\<rparr>,
         probe_refused = (\<lambda>p. False), serve_refused = (\<lambda>p. False),
         abspath_web_dashboard = ''/srv/memscope/web_dashboard'', strerror = (\<lambda>e. ''error'')\<rparr>) ''web_dashboard''"
    by (simp add: path_exists_def)
  from start_server_missing_root [OF this, THEN conjunct1] show ?thesis by simp
qed

lemma find_available_port_start:
  assumes "socket_bind refused start = Bound"
  shows "find_available_port (socket_bind refused) start = (Inr start, [start])"
proof -
  have "py_range start (start + 100) = start # [start + 1..start + 100 - 1]"
    unfolding py_range_def by (rule upto_rec1) simp
  with assms show ?thesis by (simp add: find_available_port_def)
qed

theorem interrupt_stops_server_witness:
  "outcome (start_server (\<lambda>fs requestline path. \<lparr>base_status = 404, base_error = Some ''File not found'',
        base_headers = [], base_body = []\<rparr>)
     \<lparr>world_fs = \<lparr>files = [''web_dashboard/dashboard_index.html'' \<mapsto> ''<p>home</p>''],
                       dirs = [''web_dashboard'' \<mapsto> 4096], write_refused = Map.empty\<rparr>,
         probe_refused = (\<lambda>p. False), serve_refused = (\<lambda>p. False),
         abspath_web_dashboard = ''/srv/memscope/web_dashboard'', strerror = (\<lambda>e. ''error'')\<rparr>
     8080 False
     [Get ''12:00:00'' ''GET / HTTP/1.1'' ''HTTP/1.1'' ''/'', Interrupt,
      Get ''12:00:01'' ''GET /memory HTTP/1.1'' ''HTTP/1.1'' ''/memory'']) = Returned \<and>
   exit_code (outcome (start_server (\<lambda>fs requestline path. \<lparr>base_status = 404, base_error = Some ''File not found'',
        base_headers = [], base_body = []\<rparr>)
     \<lparr>world_fs = \<lparr>files = [''web_dashboard/dashboard_index.html'' \<mapsto> ''<p>home</p>''],
                       dirs = [''web_dashboard'' \<mapsto> 4096], write_refused = Map.empty\<rparr>,
         probe_refused = (\<lambda>p. False), serve_refused = (\<lambda>p. False),
         abspath_web_dashboard = ''/srv/memscope/web_dashboard'', strerror = (\<lambda>e. ''error'')\<rparr>
     8080 False
     [Get ''12:00:00'' ''GET / HTTP/1.1'' ''HTTP/1.1'' ''/'', Interrupt,
      Get ''12:00:01'' ''GET /memory HTTP/1.1'' ''HTTP/1.1'' ''/memory''])) = Some 0 \<and>
   length (exchanges (start_server (\<lambda>fs requestline path. \<lparr>base_status = 404, base_error = Some ''File not found'',
        base_headers = [], base_body = []\<rparr>)
     \<lparr>world_fs = \<lparr>files = [''web_dashboard/dashboard_index.html'' \<mapsto> ''<p>home</p>''],
                       dirs = [''web_dashboard'' \<mapsto> 4096], write_refused = Map.empty\<rparr>,
         probe_refused = (\<lambda>p. False), serve_refused = (\<lambda>p. False),
         abspath_web_dashboard = ''/srv/memscope/web_dashboard'', strerror = (\<lambda>e. ''error'')\<rparr>
     8080 False
     [Get ''12:00:00'' ''GET / HTTP/1.1'' ''HTTP/1.1'' ''/'', Interrupt,
      Get ''12:00:01'' ''GET /memory HTTP/1.1'' ''HTTP/1.1'' ''/memory''])) = 1 \<and>
   server_closed (start_server (\<lambda>fs requestline path. \<lparr>base_status = 404, base_error = Some ''File not found'',
        base_headers = [], base_body = []\<rparr>)
     \<lparr>world_fs = \<lparr>files = [''web_dashboard/dashboard_index.html'' \<mapsto> ''<p>home</p>''],
                       dirs = [''web_dashboard'' \<mapsto> 4096], write_refused = Map.empty\<rparr>,
         probe_refused = (\<lambda>p. False), serve_refused = (\<lambda>p. False),
         abspath_web_dashboard = ''/srv/memscope/web_dashboard'', strerror = (\<lambda>e. ''error'')\<rparr>
     8080 False
     [Get ''12:00:00'' ''GET / HTTP/1.1'' ''HTTP/1.1'' ''/'', Interrupt,
      Get ''12:00:01'' ''GET /memory HTTP/1.1'' ''HTTP/1.1'' ''/memory'']) \<and>
   suffix
      [CHR 0x0A # [CHR 0xF0, CHR 0x9F, CHR 0x91, CHR 0x8B] @ '' Server stopped by user'',
       ''   Thanks for using the Memory Analysis Dashboard!'']
     (console (start_server (\<lambda>fs requestline path. \<lparr>base_status = 404, base_error = Some ''File not found'',
        base_headers = [], base_body = []\<rparr>)
     \<lparr>world_fs = \<lparr>files = [''web_dashboard/dashboard_index.html'' \<mapsto> ''<p>home</p>''],
                       dirs = [''web_dashboard'' \<mapsto> 4096], write_refused = Map.empty\<rparr>,
         probe_refused = (\<lambda>p. False), serve_refused = (\<lambda>p. False),
         abspath_web_dashboard = ''/srv/memscope/web_dashboard'', strerror = (\<lambda>e. ''error'')\<rparr>
     8080 False
     [Get ''12:00:00'' ''GET / HTTP/1.1'' ''HTTP/1.1'' ''/'', Interrupt,
      Get ''12:00:01'' ''GET /memory HTTP/1.1'' ''HTTP/1.1'' ''/memory'']))"
proof -
  have b: "outcome (start_server (\<lambda>fs requestline path. \<lparr>base_status = 404, base_error = Some ''File not found'',
        base_headers = [], base_body = []\<rparr>)
     \<lparr>world_fs = \<lparr>files = [''web_dashboard/dashboard_index.html'' \<mapsto> ''<p>home</p>''],
                       dirs = [''web_dashboard'' \<mapsto> 4096], write_refused = Map.empty\<rparr>,
         probe_refused = (\<lambda>p. False), serve_refused = (\<lambda>p. False),
         abspath_web_dashboard = ''/srv/memscope/web_dashboard'', strerror = (\<lambda>e. ''error'')\<rparr>
     8080 False []) = Blocked"
    by (simp add: start_server_def Let_def path_exists_def ensure_dashboard_index_def
          check_data_files_def find_available_port_start socket_bind_def)
  have n: "Interrupt \<notin> set [Get ''12:00:00'' ''GET / HTTP/1.1'' ''HTTP/1.1'' ''/'']"
    by simp
  have e: "[Get ''12:00:00'' ''GET / HTTP/1.1'' ''HTTP/1.1'' ''/''] @
      Interrupt # [Get ''12:00:01'' ''GET /memory HTTP/1.1'' ''HTTP/1.1'' ''/memory''] =
      [Get ''12:00:00'' ''GET / HTTP/1.1'' ''HTTP/1.1'' ''/'', Interrupt,
      Get ''12:00:01'' ''GET /memory HTTP/1.1'' ''HTTP/1.1'' ''/memory'']"
    by simp
  note t = interrupt_stops_server
    [OF b n, of "[Get ''12:00:01'' ''GET /memory HTTP/1.1'' ''HTTP/1.1'' ''/memory'']", unfolded e]
  from t have 1: "outcome (start_server (\<lambda>fs requestline path. \<lparr>base_status = 404, base_error = Some ''File not found'',
        base_headers = [], base_body = []\<rparr>)
     \<lparr>world_fs = \<lparr>files = [''web_dashboard/dashboard_index.html'' \<mapsto> ''<p>home</p>''],
                       dirs = [''web_dashboard'' \<mapsto> 4096], write_refused = Map.empty\<rparr>,
         probe_refused = (\<lambda>p. False), serve_refused = (\<lambda>p. False),
         abspath_web_dashboard = ''/srv/memscope/web_dashboard'', strerror = (\<lambda>e. ''error'')\<rparr>
     8080 False
     [Get ''12:00:00'' ''GET / HTTP/1.1'' ''HTTP/1.1'' ''/'', Interrupt,
      Get ''12:00:01'' ''GET /memory HTTP/1.1'' ''HTTP/1.1'' ''/memory'']) = Returned"
    by (elim conjE)
  from t have 2: "exit_code (outcome (start_server (\<lambda>fs requestline path. \<lparr>base_status = 404, base_error = Some ''File not found'',
        base_headers = [], base_body = []\<rparr>)
     \<lparr>world_fs = \<lparr>files = [''web_dashboard/dashboard_index.html'' \<mapsto> ''<p>home</p>''],
                       dirs = [''web_dashboard'' \<mapsto> 4096], write_refused = Map.empty\<rparr>,
         probe_refused = (\<lambda>p. False), serve_refused = (\<lambda>p. False),
         abspath_web_dashboard = ''/srv/memscope/web_dashboard'', strerror = (\<lambda>e. ''error'')\<rparr>
     8080 False
     [Get ''12:00:00'' ''GET / HTTP/1.1'' ''HTTP/1.1'' ''/'', Interrupt,
      Get ''12:00:01'' ''GET /memory HTTP/1.1'' ''HTTP/1.1'' ''/memory''])) = Some 0"
    by (elim conjE)
  from t have "length (exchanges (start_server (\<lambda>fs requestline path. \<lparr>base_status = 404, base_error = Some ''File not found'',
        base_headers = [], base_body = []\<rparr>)
     \<lparr>world_fs = \<lparr>files = [''web_dashboard/dashboard_index.html'' \<mapsto> ''<p>home</p>''],
                       dirs = [''web_dashboard'' \<mapsto> 4096], write_refused = Map.empty\<rparr>,
         probe_refused = (\<lambda>p. False), serve_refused = (\<lambda>p. False),
         abspath_web_dashboard = ''/srv/memscope/web_dashboard'', strerror = (\<lambda>e. ''error'')\<rparr>
     8080 False
     [Get ''12:00:00'' ''GET / HTTP/1.1'' ''HTTP/1.1'' ''/'', Interrupt,
      Get ''12:00:01'' ''GET /memory HTTP/1.1'' ''HTTP/1.1'' ''/memory''])) =
      length [Get ''12:00:00'' ''GET / HTTP/1.1'' ''HTTP/1.1'' ''/'']"
    by (elim conjE)
  then have 3: "length (exchanges (start_server (\<lambda>fs requestline path. \<lparr>base_status = 404, base_error = Some ''File not found'',
        base_headers = [], base_body = []\<rparr>)
     \<lparr>world_fs = \<lparr>files = [''web_dashboard/dashboard_index.html'' \<mapsto> ''<p>home</p>''],
                       dirs = [''web_dashboard'' \<mapsto> 4096], write_refused = Map.empty\<rparr>,
         probe_refused = (\<lambda>p. False), serve_refused = (\<lambda>p. False),
         abspath_web_dashboard = ''/srv/memscope/web_dashboard'', strerror = (\<lambda>e. ''error'')\<rparr>
     8080 False
     [Get ''12:00:00'' ''GET / HTTP/1.1'' ''HTTP/1.1'' ''/'', Interrupt,
      Get ''12:00:01'' ''GET /memory HTTP/1.1'' ''HTTP/1.1'' ''/memory''])) = 1"
    by simp
  from t have 4: "server_closed (start_server (\<lambda>fs requestline path. \<lparr>base_status = 404, base_error = Some ''File not found'',
        base_headers = [], base_body = []\<rparr>)
     \<lparr>world_fs = \<lparr>files = [''web_dashboard/dashboard_index.html'' \<mapsto> ''<p>home</p>''],
                       dirs = [''web_dashboard'' \<mapsto> 4096], write_refused = Map.empty\<rparr>,
         probe_refused = (\<lambda>p. False), serve_refused = (\<lambda>p. False),
         abspath_web_dashboard = ''/srv/memscope/web_dashboard'', strerror = (\<lambda>e. ''error'')\<rparr>
     8080 False
     [Get ''12:00:00'' ''GET / HTTP/1.1'' ''HTTP/1.1'' ''/'', Interrupt,
      Get ''12:00:01'' ''GET /memory HTTP/1.1'' ''HTTP/1.1'' ''/memory''])"
    by (elim conjE)
  from t have "console (start_server (\<lambda>fs requestline path. \<lparr>base_status = 404, base_error = Some ''File not found'',
        base_headers = [], base_body = []\<rparr>)
     \<lparr>world_fs = \<lparr>files = [''web_dashboard/dashboard_index.html'' \<mapsto> ''<p>home</p>''],
                       dirs = [''web_dashboard'' \<mapsto> 4096], write_refused = Map.empty\<rparr>,
         probe_refused = (\<lambda>p. False), serve_refused = (\<lambda>p. False),
         abspath_web_dashboard = ''/srv/memscope/web_dashboard'', strerror = (\<lambda>e. ''error'')\<rparr>
     8080 False
     [Get ''12:00:00'' ''GET / HTTP/1.1'' ''HTTP/1.1'' ''/'', Interrupt,
      Get ''12:00:01'' ''GET /memory HTTP/1.1'' ''HTTP/1.1'' ''/memory'']) =
      console (start_server (\<lambda>fs requestline path. \<lparr>base_status = 404, base_error = Some ''File not found'',
        base_headers = [], base_body = []\<rparr>)
     \<lparr>world_fs = \<lparr>files = [''web_dashboard/dashboard_index.html'' \<mapsto> ''<p>home</p>''],
                       dirs = [''web_dashboard'' \<mapsto> 4096], write_refused = Map.empty\<rparr>,
         probe_refused = (\<lambda>p. False), serve_refused = (\<lambda>p. False),
         abspath_web_dashboard = ''/srv/memscope/web_dashboard'', strerror = (\<lambda>e. ''error'')\<rparr>
     8080 False [Get ''12:00:00'' ''GET / HTTP/1.1'' ''HTTP/1.1'' ''/'']) @
      [CHR 0x0A # [CHR 0xF0, CHR 0x9F, CHR 0x91, CHR 0x8B] @ '' Server stopped by user'',
       ''   Thanks for using the Memory Analysis Dashboard!'']"
    by (elim conjE)
  then have 5: "suffix
      [CHR 0x0A # [CHR 0xF0, CHR 0x9F, CHR 0x91, CHR 0x8B] @ '' Server stopped by user'',
       ''   Thanks for using the Memory Analysis Dashboard!'']
     (console (start_server (\<lambda>fs requestline path. \<lparr>base_status = 404, base_error = Some ''File not found'',
        base_headers = [], base_body = []\<rparr>)
     \<lparr>world_fs = \<lparr>files = [''web_dashboard/dashboard_index.html'' \<mapsto> ''<p>home</p>''],
                       dirs = [''web_dashboard'' \<mapsto> 4096], write_refused = Map.empty\<rparr>,
         probe_refused = (\<lambda>p. False), serve_refused = (\<lambda>p. False),
         abspath_web_dashboard = ''/srv/memscope/web_dashboard'', strerror = (\<lambda>e. ''error'')\<rparr>
     8080 False
     [Get ''12:00:00'' ''GET / HTTP/1.1'' ''HTTP/1.1'' ''/'', Interrupt,
      Get ''12:00:01'' ''GET /memory HTTP/1.1'' ''HTTP/1.1'' ''/memory'']))"
    by (rule suffixI)
  from 1 2 3 4 5 show ?thesis by (intro conjI)
qed

end
